theory Spec2Isabelle
  imports Complex_Main "HOL-Library.Sublist" "HOL-Library.AList"
begin

section \<open>Strings and numbers of the JavaScript runtime\<close>

text \<open>
  A JavaScript string is represented by the bytes of its UTF-8 encoding, as a
  \<^typ>\<open>string\<close>. Every character the code tests for or inserts is an ASCII character,
  and in UTF-8 an ASCII byte never occurs inside the encoding of another character, so
  searching and replacing such characters byte by byte agrees with JavaScript.
\<close>

definition digit :: "nat \<Rightarrow> char" where
  "digit d = ''0123456789'' ! d"

text \<open>\<open>String(n)\<close> for a natural number \<open>n\<close> (an array index, or an index plus one).\<close>

function decimal :: "nat \<Rightarrow> string" where
  "decimal n = (if n < 10 then [digit n] else decimal (n div 10) @ [digit (n mod 10)])"
  by pat_completeness auto
termination
  by (relation "measure (\<lambda>n. n)") auto

declare decimal.simps [simp del]

text \<open>
  \<open>String(x)\<close> for a number. Point values are modelled as integers; for an integer below
  \<open>10^21\<close> in absolute value JavaScript prints the decimal numeral, with a minus sign when
  negative.
\<close>

definition numberToString :: "int \<Rightarrow> string" where
  "numberToString x = (if x < 0 then ''-'' @ decimal (nat (- x)) else decimal (nat x))"

text \<open>\<open>a || d\<close> on strings: the empty string is falsy.\<close>

definition orDefault :: "string \<Rightarrow> string \<Rightarrow> string" where
  "orDefault s d = (if s = [] then d else s)"

text \<open>\<open>a || d\<close> where \<open>a\<close> is an optional string: \<open>undefined\<close> and the empty string are falsy.\<close>

definition orElse :: "string option \<Rightarrow> string \<Rightarrow> string" where
  "orElse v d = (case v of None \<Rightarrow> d | Some s \<Rightarrow> orDefault s d)"

text \<open>\<open>Array.prototype.join\<close> on an array of strings.\<close>

fun join :: "string \<Rightarrow> string list \<Rightarrow> string" where
  "join sep [] = []"
| "join sep [x] = x"
| "join sep (x # y # ys) = x @ sep @ join sep (y # ys)"

text \<open>
  \<open>Array.prototype.indexOf\<close>: the first index holding the value, or \<open>-1\<close>. JavaScript
  compares objects by identity, the model by value. The exporter looks up the answer that
  \<open>find\<close> returned, the first one marked correct; an answer equal to it is marked correct
  too, so the first index holding an equal value is the index of that very object.
\<close>

fun indexOfFrom :: "nat \<Rightarrow> 'a list \<Rightarrow> 'a \<Rightarrow> int" where
  "indexOfFrom i [] v = - 1"
| "indexOfFrom i (x # xs) v = (if x = v then int i else indexOfFrom (Suc i) xs v)"

definition indexOf :: "'a list \<Rightarrow> 'a \<Rightarrow> int" where
  "indexOf xs v = indexOfFrom 0 xs v"

section \<open>The exporter: XML escaping\<close>

text \<open>\<open>text.replace(/c/g, r)\<close> for a single character \<open>c\<close>: every occurrence is replaced.\<close>

primrec replaceAll :: "char \<Rightarrow> string \<Rightarrow> string \<Rightarrow> string" where
  "replaceAll c r [] = []"
| "replaceAll c r (x # xs) = (if x = c then r else [x]) @ replaceAll c r xs"

definition escapeXml :: "string \<Rightarrow> string" where
  \<open>escapeXml text =
     replaceAll (CHR 0x27) ''&apos;''
       (replaceAll (CHR 0x22) ''&quot;''
         (replaceAll CHR ''>'' ''&gt;''
           (replaceAll CHR ''<'' ''&lt;''
             (replaceAll CHR ''&'' ''&amp;'' text))))\<close>

text \<open>
  What the specification says of escaping, character by character: each of the five
  characters becomes its entity, every other character stays.
\<close>

definition entity :: "char \<Rightarrow> string" where
  \<open>entity c =
     (if c = CHR ''&'' then ''&amp;''
      else if c = CHR ''<'' then ''&lt;''
      else if c = CHR ''>'' then ''&gt;''
      else if c = CHR 0x22 then ''&quot;''
      else if c = CHR 0x27 then ''&apos;''
      else [c])\<close>

definition escapeXml_spec :: "string \<Rightarrow> string" where
  "escapeXml_spec text = concat (map entity text)"

section \<open>The exporter: the course document\<close>

text \<open>
  Modelled from the spec: the type declarations \<open>GeneratedCourse\<close>, \<open>CanvasModule\<close> and
  \<open>CanvasModuleItem\<close> of \<open>@/types\<close> are not among the sources. The records follow the data
  model of the specification; a field marked optional there is an \<^typ>\<open>'a option\<close>, with
  \<open>None\<close> for \<open>undefined\<close>. The \<open>type\<close> fields are strings, since the exporter has a branch
  for a type outside the declared ones.
\<close>

record Answer =
  answer_text :: string
  answer_correct :: bool

record Question =
  question_type :: string
  question_text :: string
  question_points :: int
  question_answers :: "Answer list option"

record Rating =
  rating_description :: string
  rating_points :: int

record Criterion =
  criterion_description :: string
  criterion_points :: int
  criterion_ratings :: "Rating list"

record Rubric =
  rubric_title :: string
  rubric_criteria :: "Criterion list"

record CanvasModuleItem =
  item_id :: string
  item_type :: string
  item_title :: string
  item_content :: "string option"
  item_position :: int
  item_points :: "int option"
  item_rubric :: "Rubric option"
  item_questions :: "Question list option"
  item_prompt :: "string option"

record CanvasModule =
  mod_id :: string
  mod_name :: string
  mod_position :: int
  mod_items :: "CanvasModuleItem list"

record GeneratedCourse =
  course_title :: string
  course_description :: string
  course_welcomeMessage :: string
  course_modules :: "CanvasModule list"

section \<open>The exporter: the manifest\<close>

text \<open>The resource type and the href that \<open>generateManifest\<close> selects for an item.\<close>

definition resourceTypeHref :: "CanvasModuleItem \<Rightarrow> string \<times> string" where
  "resourceTypeHref item =
     (if item_type item = ''assignment'' then (''assignment'', ''assignments/'' @ item_id item @ ''.html'')
      else if item_type item = ''discussion'' then (''discussion'', ''discussions/'' @ item_id item @ ''.html'')
      else if item_type item = ''quiz'' then (''assessment'', ''quizzes/'' @ item_id item @ ''.xml'')
      else (''webcontent'', item_id item @ ''.html''))"

definition itemResource :: "CanvasModuleItem \<Rightarrow> string" where
  \<open>itemResource item =
     (let resourceId = ''res_'' @ item_id item;
          (resourceType, href) = resourceTypeHref item
      in ''\<newline>    <resource identifier="'' @ resourceId @ ''" type="'' @ resourceType
         @ ''" href="'' @ href @ ''">\<newline>      <file href="'' @ href
         @ ''"/>\<newline>    </resource>'')\<close>

definition itemEntry :: "CanvasModuleItem \<Rightarrow> string" where
  \<open>itemEntry item =
     (let itemId = ''item_'' @ item_id item;
          resourceId = ''res_'' @ item_id item
      in ''\<newline>          <item identifier="'' @ itemId @ ''" identifierref="'' @ resourceId
         @ ''">\<newline>            <title>'' @ escapeXml (item_title item)
         @ ''</title>\<newline>          </item>'')\<close>

text \<open>The inner loop over the items of a module: it pushes onto both arrays.\<close>

primrec itemsLoop ::
  "CanvasModuleItem list \<Rightarrow> string list \<Rightarrow> string list \<Rightarrow> string list \<times> string list" where
  "itemsLoop [] resources moduleItems = (resources, moduleItems)"
| "itemsLoop (item # rest) resources moduleItems =
     itemsLoop rest (resources @ [itemResource item]) (moduleItems @ [itemEntry item])"

definition moduleEntry :: "CanvasModule \<Rightarrow> string list \<Rightarrow> string" where
  \<open>moduleEntry courseModule moduleItems =
     (let moduleId = ''mod_'' @ mod_id courseModule
      in ''\<newline>      <item identifier="'' @ moduleId @ ''">\<newline>        <title>''
         @ escapeXml (mod_name courseModule) @ ''</title>\<newline>        ''
         @ join '''' moduleItems @ ''\<newline>      </item>'')\<close>

text \<open>The outer loop over the modules.\<close>

primrec modulesLoop ::
  "CanvasModule list \<Rightarrow> string list \<Rightarrow> string list \<Rightarrow> string list \<times> string list" where
  "modulesLoop [] resources items = (resources, items)"
| "modulesLoop (courseModule # rest) resources items =
     (let (resources', moduleItems) = itemsLoop (mod_items courseModule) resources []
      in modulesLoop rest resources' (items @ [moduleEntry courseModule moduleItems]))"

definition overviewResource :: "string \<Rightarrow> string" where
  \<open>overviewResource overviewId =
     ''\<newline>    <resource identifier="'' @ overviewId
     @ ''" type="webcontent" href="course_overview.html">\<newline>      <file href="course_overview.html"/>\<newline>    </resource>''\<close>

definition overviewItem :: "string \<Rightarrow> string" where
  \<open>overviewItem overviewId =
     ''\<newline>      <item identifier="overview_item" identifierref="'' @ overviewId
     @ ''">\<newline>        <title>Course Overview</title>\<newline>      </item>''\<close>

text \<open>
  \<open>generateId()\<close> reads the clock and the random generator. \<open>generateManifest\<close> calls it
  twice; the two results are the parameters \<open>overviewId\<close> (first call) and \<open>manifestId\<close>
  (second call).
\<close>

definition generateManifest :: "string \<Rightarrow> string \<Rightarrow> GeneratedCourse \<Rightarrow> string" where
  \<open>generateManifest overviewId manifestId course =
     (let (resources, items) =
            modulesLoop (course_modules course) [overviewResource overviewId] [overviewItem overviewId]
      in ''<?xml version="1.0" encoding="UTF-8"?>\<newline><manifest identifier="course_'' @ manifestId
         @ ''"\<newline>  xmlns="http://www.imsglobal.org/xsd/imsccv1p1/imscp_v1p1"\<newline>  xmlns:lom="http://ltsc.ieee.org/xsd/imsccv1p1/LOM/resource"\<newline>  xmlns:lomimscc="http://ltsc.ieee.org/xsd/imsccv1p1/LOM/manifest"\<newline>  xmlns:xsi="http://www.w3.org/2001/XMLSchema-instance"\<newline>  xsi:schemaLocation="http://www.imsglobal.org/xsd/imsccv1p1/imscp_v1p1 http://www.imsglobal.org/profile/cc/ccv1p1/ccv1p1_imscp_v1p2_v1p0.xsd">\<newline>  <metadata>\<newline>    <schema>IMS Common Cartridge</schema>\<newline>    <schemaversion>1.1.0</schemaversion>\<newline>    <lomimscc:lom>\<newline>      <lomimscc:general>\<newline>        <lomimscc:title>\<newline>          <lomimscc:string>''
         @ escapeXml (course_title course)
         @ ''</lomimscc:string>\<newline>        </lomimscc:title>\<newline>        <lomimscc:description>\<newline>          <lomimscc:string>''
         @ escapeXml (course_description course)
         @ ''</lomimscc:string>\<newline>        </lomimscc:description>\<newline>      </lomimscc:general>\<newline>    </lomimscc:lom>\<newline>  </metadata>\<newline>  <organizations>\<newline>    <organization identifier="org_1" structure="rooted-hierarchy">\<newline>      <item identifier="root">\<newline>        ''
         @ join '''' items
         @ ''\<newline>      </item>\<newline>    </organization>\<newline>  </organizations>\<newline>  <resources>\<newline>    ''
         @ join '''' resources
         @ ''\<newline>  </resources>\<newline></manifest>'')\<close>

section \<open>The exporter: pages, assignments, discussions\<close>

definition generatePageHtml :: "string \<Rightarrow> string \<Rightarrow> string" where
  \<open>generatePageHtml title content =
     ''<!DOCTYPE html>\<newline><html>\<newline><head>\<newline>  <meta charset="UTF-8">\<newline>  <title>''
     @ escapeXml title @ ''</title>\<newline></head>\<newline><body>\<newline>'' @ content
     @ ''\<newline></body>\<newline></html>''\<close>

definition ratingText :: "Rating \<Rightarrow> string" where
  "ratingText r =
     escapeXml (rating_description r) @ '' ('' @ numberToString (rating_points r) @ '' pts)''"

definition criterionRow :: "Criterion \<Rightarrow> string" where
  \<open>criterionRow c =
     ''\<newline>    <tr>\<newline>      <td>'' @ escapeXml (criterion_description c)
     @ ''</td>\<newline>      <td>'' @ numberToString (criterion_points c)
     @ ''</td>\<newline>      <td>'' @ join ''<br>'' (map ratingText (criterion_ratings c))
     @ ''</td>\<newline>    </tr>''\<close>

definition rubricHtml :: "Rubric option \<Rightarrow> string" where
  \<open>rubricHtml rubric =
     (case rubric of
        None \<Rightarrow> ''''
      | Some r \<Rightarrow>
          ''\<newline><h3>Rubric: '' @ escapeXml (rubric_title r)
          @ ''</h3>\<newline><table border="1" cellpadding="8" cellspacing="0">\<newline>  <thead>\<newline>    <tr>\<newline>      <th>Criterion</th>\<newline>      <th>Points</th>\<newline>      <th>Ratings</th>\<newline>    </tr>\<newline>  </thead>\<newline>  <tbody>\<newline>    ''
          @ join '''' (map criterionRow (rubric_criteria r))
          @ ''\<newline>  </tbody>\<newline></table>'')\<close>

text \<open>\<open>item.points || 0\<close>: \<open>undefined\<close> and \<open>0\<close> are falsy.\<close>

definition pointsOrZero :: "int option \<Rightarrow> int" where
  "pointsOrZero p = (case p of None \<Rightarrow> 0 | Some x \<Rightarrow> if x = 0 then 0 else x)"

definition generateAssignmentHtml :: "CanvasModuleItem \<Rightarrow> string" where
  \<open>generateAssignmentHtml item =
     ''<!DOCTYPE html>\<newline><html>\<newline><head>\<newline>  <meta charset="UTF-8">\<newline>  <title>''
     @ escapeXml (item_title item)
     @ ''</title>\<newline></head>\<newline><body>\<newline><h1>''
     @ escapeXml (item_title item)
     @ ''</h1>\<newline><p><strong>Points:</strong> ''
     @ numberToString (pointsOrZero (item_points item))
     @ ''</p>\<newline>\<newline><h2>Instructions</h2>\<newline>''
     @ orElse (item_content item) ''<p>No instructions provided.</p>''
     @ ''\<newline>\<newline>'' @ rubricHtml (item_rubric item)
     @ ''\<newline></body>\<newline></html>''\<close>

definition generateDiscussionHtml :: "CanvasModuleItem \<Rightarrow> string" where
  \<open>generateDiscussionHtml item =
     ''<!DOCTYPE html>\<newline><html>\<newline><head>\<newline>  <meta charset="UTF-8">\<newline>  <title>''
     @ escapeXml (item_title item)
     @ ''</title>\<newline></head>\<newline><body>\<newline><h1>''
     @ escapeXml (item_title item) @ ''</h1>\<newline>''
     @ orElse (item_prompt item) (orElse (item_content item) ''<p>Discussion topic.</p>'')
     @ ''\<newline></body>\<newline></html>''\<close>

section \<open>The exporter: QTI quizzes\<close>

definition responseLabel :: "nat \<Rightarrow> Answer \<Rightarrow> string" where
  \<open>responseLabel aIndex a =
     ''\<newline>            <response_label ident="ans_'' @ decimal aIndex
     @ ''">\<newline>              <material>\<newline>                <mattext texttype="text/plain">''
     @ escapeXml (answer_text a)
     @ ''</mattext>\<newline>              </material>\<newline>            </response_label>''\<close>

definition respcondition :: "Answer list \<Rightarrow> Answer \<Rightarrow> int \<Rightarrow> string" where
  \<open>respcondition answers correctAnswer points =
     ''\<newline>        <respcondition continue="No">\<newline>          <conditionvar>\<newline>            <varequal respident="response1">ans_''
     @ numberToString (indexOf answers correctAnswer)
     @ ''</varequal>\<newline>          </conditionvar>\<newline>          <setvar action="Set" varname="SCORE">''
     @ numberToString points
     @ ''</setvar>\<newline>        </respcondition>''\<close>

definition multipleChoiceItem :: "nat \<Rightarrow> Question \<Rightarrow> Answer list \<Rightarrow> string" where
  \<open>multipleChoiceItem index q answers =
     (let qId = ''q_'' @ decimal (index + 1);
          correctAnswer = find (\<lambda>a. answer_correct a) answers
      in ''\<newline>    <item ident="'' @ qId @ ''" title="Question '' @ decimal (index + 1)
         @ ''">\<newline>      <presentation>\<newline>        <material>\<newline>          <mattext texttype="text/html">''
         @ escapeXml (question_text q)
         @ ''</mattext>\<newline>        </material>\<newline>        <response_lid ident="response1" rcardinality="Single">\<newline>          <render_choice>\<newline>            ''
         @ join '''' (map (\<lambda>(aIndex, a). responseLabel aIndex a) (enumerate 0 answers))
         @ ''\<newline>          </render_choice>\<newline>        </response_lid>\<newline>      </presentation>\<newline>      <resprocessing>\<newline>        <outcomes>\<newline>          <decvar maxvalue="''
         @ numberToString (question_points q)
         @ ''" minvalue="0" varname="SCORE" vartype="Decimal"/>\<newline>        </outcomes>\<newline>        ''
         @ (case correctAnswer of
              Some c \<Rightarrow> respcondition answers c (question_points q)
            | None \<Rightarrow> '''')
         @ ''\<newline>      </resprocessing>\<newline>    </item>'')\<close>

definition freeResponseItem :: "nat \<Rightarrow> Question \<Rightarrow> string" where
  \<open>freeResponseItem index q =
     (let qId = ''q_'' @ decimal (index + 1)
      in ''\<newline>    <item ident="'' @ qId @ ''" title="Question '' @ decimal (index + 1)
         @ ''">\<newline>      <presentation>\<newline>        <material>\<newline>          <mattext texttype="text/html">''
         @ escapeXml (question_text q)
         @ ''</mattext>\<newline>        </material>\<newline>        <response_str ident="response1" rcardinality="Single">\<newline>          <render_fib>\<newline>            <response_label ident="answer1" rshuffle="No"/>\<newline>          </render_fib>\<newline>        </response_str>\<newline>      </presentation>\<newline>      <resprocessing>\<newline>        <outcomes>\<newline>          <decvar maxvalue="''
         @ numberToString (question_points q)
         @ ''" minvalue="0" varname="SCORE" vartype="Decimal"/>\<newline>        </outcomes>\<newline>      </resprocessing>\<newline>    </item>'')\<close>

text \<open>
  The callback of \<open>questions.map\<close>: the multiple-choice rendering needs both the type
  \<open>multiple_choice\<close> and an \<open>answers\<close> array (an array is truthy even when empty).
\<close>

definition questionItem :: "nat \<Rightarrow> Question \<Rightarrow> string" where
  "questionItem index q =
     (case question_answers q of
        Some answers \<Rightarrow>
          if question_type q = ''multiple_choice'' then multipleChoiceItem index q answers
          else freeResponseItem index q
      | None \<Rightarrow> freeResponseItem index q)"

definition generateQuizQti :: "CanvasModuleItem \<Rightarrow> string" where
  \<open>generateQuizQti item =
     (let questions = (case item_questions item of Some qs \<Rightarrow> qs | None \<Rightarrow> []);
          questionItems = join '''' (map (\<lambda>(index, q). questionItem index q) (enumerate 0 questions))
      in ''<?xml version="1.0" encoding="UTF-8"?>\<newline><questestinterop xmlns="http://www.imsglobal.org/xsd/ims_qtiasiv1p2">\<newline>  <assessment ident="quiz_''
         @ item_id item @ ''" title="'' @ escapeXml (item_title item)
         @ ''">\<newline>    <section ident="root_section">\<newline>      ''
         @ questionItems
         @ ''\<newline>    </section>\<newline>  </assessment>\<newline></questestinterop>'')\<close>

section \<open>The exporter: the archive\<close>

text \<open>
  The archive under construction is the table of entries of the JSZip object, in the order
  in which the names were first added: \<open>file\<close> stores a file under the handle's root
  followed by the name, replacing an entry of that name in place; \<open>folder\<close> adds a
  directory entry unless the name is taken, and returns a handle whose root is that
  directory. Directory entries that the library derives from a \<open>/\<close> inside a file name
  are not represented, and neither is the final compression into a blob.
\<close>

datatype entry = Dir | File string

type_synonym archive = "(string \<times> entry) list"

definition zip_file :: "string \<Rightarrow> string \<Rightarrow> string \<Rightarrow> archive \<Rightarrow> archive" where
  "zip_file folder name data jszip = AList.update (folder @ name) (File data) jszip"

definition zip_folder :: "string \<Rightarrow> archive \<Rightarrow> archive \<times> string" where
  "zip_folder name jszip =
     (if map_of jszip (name @ ''/'') = None then (jszip @ [(name @ ''/'', Dir)], name @ ''/'')
      else (jszip, name @ ''/''))"

text \<open>The body of the inner loop: the \<open>switch\<close> on the item's type.\<close>

definition exportItem :: "string \<Rightarrow> string \<Rightarrow> string \<Rightarrow> archive \<Rightarrow> CanvasModuleItem \<Rightarrow> archive" where
  "exportItem assignmentsFolder discussionsFolder quizzesFolder jszip item =
     (if item_type item = ''page'' then
        zip_file '''' (item_id item @ ''.html'')
          (generatePageHtml (item_title item) (orElse (item_content item) '''')) jszip
      else if item_type item = ''assignment'' then
        zip_file assignmentsFolder (item_id item @ ''.html'') (generateAssignmentHtml item) jszip
      else if item_type item = ''discussion'' then
        zip_file discussionsFolder (item_id item @ ''.html'') (generateDiscussionHtml item) jszip
      else if item_type item = ''quiz'' then
        zip_file quizzesFolder (item_id item @ ''.xml'') (generateQuizQti item) jszip
      else
        zip_file '''' (item_id item @ ''.html'')
          (generatePageHtml (item_title item) (orElse (item_content item) '''')) jszip)"

definition exportToIMSCC :: "string \<Rightarrow> string \<Rightarrow> GeneratedCourse \<Rightarrow> archive" where
  \<open>exportToIMSCC overviewId manifestId course =
     (let zip0 = zip_file '''' ''imsmanifest.xml'' (generateManifest overviewId manifestId course) [];
          zip1 = zip_file '''' ''course_overview.html''
                   (generatePageHtml ''Welcome''
                      (orDefault (course_welcomeMessage course) ''<p>Welcome to the course!</p>'')) zip0;
          (zip2, assignmentsFolder) = zip_folder ''assignments'' zip1;
          (zip3, discussionsFolder) = zip_folder ''discussions'' zip2;
          (zip4, quizzesFolder) = zip_folder ''quizzes'' zip3
      in foldl (\<lambda>jszip courseModule.
                  foldl (exportItem assignmentsFolder discussionsFolder quizzesFolder) jszip
                    (mod_items courseModule))
           zip4 (course_modules course))\<close>

section \<open>The route: completing the generated course\<close>

text \<open>
  The course object is whatever \<open>JSON.parse\<close> made of the model's reply, so it is a value
  of JavaScript's dynamic types. In \<open>JObj\<close> the list holds the own properties of the parsed
  object, with distinct keys. Numbers are rationals: \<open>JSON.parse\<close> never yields \<open>NaN\<close>,
  both zeros are falsy, and every other number (an overflowed literal included) behaves
  here as a nonzero number does.
\<close>

datatype jsval =
    JUndefined
  | JNull
  | JBool bool
  | JNum rat
  | JStr string
  | JArr "jsval list"
  | JObj "(string \<times> jsval) list"

text \<open>What a \<open>throw\<close> or a failing operation raises.\<close>

datatype error = TypeError | Error string

fun truthy :: "jsval \<Rightarrow> bool" where
  "truthy JUndefined = False"
| "truthy JNull = False"
| "truthy (JBool b) = b"
| "truthy (JNum n) = (n \<noteq> 0)"
| "truthy (JStr s) = (s \<noteq> [])"
| "truthy (JArr xs) = True"
| "truthy (JObj kvs) = True"

definition nullish :: "jsval \<Rightarrow> bool" where
  "nullish v = (v = JUndefined \<or> v = JNull)"

text \<open>
  Reading a property of a value that is neither \<open>null\<close> nor \<open>undefined\<close>. The names read
  by the route (\<open>title\<close>, \<open>modules\<close>, \<open>id\<close>, \<open>name\<close>, \<open>position\<close>, \<open>items\<close>, \<open>type\<close>,
  \<open>content\<close>, \<open>points\<close>, \<open>rubric\<close>, \<open>questions\<close>, \<open>prompt\<close>) are not properties of
  strings, numbers, booleans or arrays, so only an object can hold them.
\<close>

fun property :: "jsval \<Rightarrow> string \<Rightarrow> jsval" where
  "property (JObj kvs) k = (case map_of kvs k of Some v \<Rightarrow> v | None \<Rightarrow> JUndefined)"
| "property v k = JUndefined"

definition isArray :: "jsval \<Rightarrow> bool" where
  "isArray v = (case v of JArr xs \<Rightarrow> True | _ \<Rightarrow> False)"

text \<open>\<open>a || b\<close> and \<open>a ?? b\<close> on values.\<close>

definition orValue :: "jsval \<Rightarrow> jsval \<Rightarrow> jsval" where
  "orValue a b = (if truthy a then a else b)"

definition coalesce :: "jsval \<Rightarrow> jsval \<Rightarrow> jsval" where
  "coalesce a b = (if nullish a then b else a)"

text \<open>
  \<open>Array.prototype.map\<close> with a callback that receives the element and its index and
  may throw: the first exception ends the loop.
\<close>

fun mapFrom :: "nat \<Rightarrow> (nat \<Rightarrow> 'a \<Rightarrow> error + 'b) \<Rightarrow> 'a list \<Rightarrow> error + 'b list" where
  "mapFrom i f [] = Inr []"
| "mapFrom i f (x # xs) =
     (case f i x of
        Inl e \<Rightarrow> Inl e
      | Inr y \<Rightarrow> (case mapFrom (Suc i) f xs of Inl e \<Rightarrow> Inl e | Inr ys \<Rightarrow> Inr (y # ys)))"

text \<open>The callback for an item; reading a property of \<open>null\<close> or \<open>undefined\<close> throws.\<close>

definition normalizeItem :: "nat \<Rightarrow> nat \<Rightarrow> jsval \<Rightarrow> error + jsval" where
  "normalizeItem moduleIndex itemIndex item =
     (if nullish item then Inl TypeError
      else Inr (JObj
        [(''id'', orValue (property item ''id'')
                    (JStr (''item-'' @ decimal (moduleIndex + 1) @ ''-'' @ decimal (itemIndex + 1)))),
         (''type'', orValue (property item ''type'') (JStr ''page'')),
         (''title'', orValue (property item ''title'') (JStr (''Item '' @ decimal (itemIndex + 1)))),
         (''content'', property item ''content''),
         (''position'', coalesce (property item ''position'') (JNum (of_nat (itemIndex + 1)))),
         (''points'', property item ''points''),
         (''rubric'', property item ''rubric''),
         (''questions'', property item ''questions''),
         (''prompt'', property item ''prompt'')]))"

text \<open>
  \<open>(module.items || []).map(...)\<close>: a truthy value that is not an array has no function
  \<open>map\<close> to call.
\<close>

definition normalizeItems :: "nat \<Rightarrow> jsval \<Rightarrow> error + jsval list" where
  "normalizeItems moduleIndex items =
     (case orValue items (JArr []) of
        JArr xs \<Rightarrow> mapFrom 0 (normalizeItem moduleIndex) xs
      | _ \<Rightarrow> Inl TypeError)"

definition normalizeModule :: "nat \<Rightarrow> jsval \<Rightarrow> error + jsval" where
  "normalizeModule moduleIndex module' =
     (if nullish module' then Inl TypeError
      else case normalizeItems moduleIndex (property module' ''items'') of
        Inl e \<Rightarrow> Inl e
      | Inr items \<Rightarrow> Inr (JObj
          [(''id'', orValue (property module' ''id'') (JStr (''module-'' @ decimal (moduleIndex + 1)))),
           (''name'', orValue (property module' ''name'') (JStr (''Module '' @ decimal (moduleIndex + 1)))),
           (''position'', coalesce (property module' ''position'') (JNum (of_nat (moduleIndex + 1)))),
           (''items'', JArr items)]))"

definition normalizeModules :: "jsval list \<Rightarrow> error + jsval list" where
  "normalizeModules modules = mapFrom 0 normalizeModule modules"

text \<open>Assigning a property of an object: an existing key keeps its place.\<close>

fun setProperty :: "jsval \<Rightarrow> string \<Rightarrow> jsval \<Rightarrow> jsval" where
  "setProperty (JObj kvs) k v = JObj (AList.update k v kvs)"
| "setProperty w k v = w"

text \<open>
  The route from the validation of the reply to the assignment of \<open>course.modules\<close>. An
  exception is caught by the route and answered with status 500. The last branch is not
  reached: the validation has found an array.
\<close>

definition normalizeCourse :: "jsval \<Rightarrow> error + jsval" where
  "normalizeCourse course =
     (if nullish course then Inl TypeError
      else if \<not> truthy (property course ''title'') \<or> \<not> truthy (property course ''modules'')
              \<or> \<not> isArray (property course ''modules'')
        then Inl (Error ''Invalid course structure returned from LLM'')
      else case property course ''modules'' of
        JArr modules \<Rightarrow>
          (case normalizeModules modules of
             Inl e \<Rightarrow> Inl e
           | Inr modules' \<Rightarrow> Inr (setProperty course ''modules'' (JArr modules')))
      | _ \<Rightarrow> Inl TypeError)"

section \<open>The client of the language model\<close>

datatype Role = System | User | Assistant

record LLMMessage =
  role :: Role
  content :: string

record LLMOptions =
  temperature :: "rat option"
  maxTokens :: "nat option"

text \<open>
  The call of \<open>generateText\<close>, a function of the \<open>ai\<close> library, is a parameter: it receives
  the request and returns the text of the reply or the error it raises. The model handle
  that \<open>getModel()\<close> builds from the environment is part of that parameter.
\<close>

record GenerateTextRequest =
  req_system :: "string option"
  req_messages :: "LLMMessage list"
  req_temperature :: rat
  req_maxTokens :: nat

definition generateLLMResponse ::
  "(GenerateTextRequest \<Rightarrow> error + string) \<Rightarrow> LLMMessage list \<Rightarrow> LLMOptions \<Rightarrow> error + string" where
  "generateLLMResponse generateText messages options =
     (let temp = (case temperature options of Some t \<Rightarrow> t | None \<Rightarrow> 7 / 10);
          maxTok = (case maxTokens options of Some n \<Rightarrow> n | None \<Rightarrow> 4096);
          systemMessage = find (\<lambda>m. role m = System) messages;
          otherMessages = filter (\<lambda>m. role m \<noteq> System) messages
      in generateText
           \<lparr>req_system = map_option content systemMessage,
            req_messages = map (\<lambda>m. \<lparr>role = role m, content = content m\<rparr>) otherMessages,
            req_temperature = temp,
            req_maxTokens = maxTok\<rparr>)"

text \<open>
  \<open>String.prototype.trim\<close> removes the white space and line terminator characters of
  ECMAScript from both ends. The table lists their UTF-8 encodings: U+0009 to U+000D,
  U+0020, U+00A0, U+1680, U+2000 to U+200A, U+2028, U+2029, U+202F, U+205F, U+3000 and
  U+FEFF.
\<close>

definition whiteSpace :: "string list" where
  "whiteSpace =
     [[CHR 0x09], [CHR 0x0A], [CHR 0x0B], [CHR 0x0C], [CHR 0x0D], [CHR 0x20],
      [CHR 0xC2, CHR 0xA0],
      [CHR 0xE1, CHR 0x9A, CHR 0x80],
      [CHR 0xE2, CHR 0x80, CHR 0x80], [CHR 0xE2, CHR 0x80, CHR 0x81],
      [CHR 0xE2, CHR 0x80, CHR 0x82], [CHR 0xE2, CHR 0x80, CHR 0x83],
      [CHR 0xE2, CHR 0x80, CHR 0x84], [CHR 0xE2, CHR 0x80, CHR 0x85],
      [CHR 0xE2, CHR 0x80, CHR 0x86], [CHR 0xE2, CHR 0x80, CHR 0x87],
      [CHR 0xE2, CHR 0x80, CHR 0x88], [CHR 0xE2, CHR 0x80, CHR 0x89],
      [CHR 0xE2, CHR 0x80, CHR 0x8A],
      [CHR 0xE2, CHR 0x80, CHR 0xA8], [CHR 0xE2, CHR 0x80, CHR 0xA9],
      [CHR 0xE2, CHR 0x80, CHR 0xAF],
      [CHR 0xE2, CHR 0x81, CHR 0x9F],
      [CHR 0xE3, CHR 0x80, CHR 0x80],
      [CHR 0xEF, CHR 0xBB, CHR 0xBF]]"

text \<open>
  Removing, from the front, every leading occurrence of a sequence of the table. The
  recursive call drops the sequence found (its first byte is \<open>c\<close>).
\<close>

fun stripLeading :: "string list \<Rightarrow> string \<Rightarrow> string" where
  "stripLeading ws [] = []"
| "stripLeading ws (c # cs) =
     (case find (\<lambda>w. prefix w (c # cs)) ws of
        None \<Rightarrow> c # cs
      | Some w \<Rightarrow> stripLeading ws (drop (length w - 1) cs))"

definition trimStart :: "string \<Rightarrow> string" where
  "trimStart s = stripLeading whiteSpace s"

definition trimEnd :: "string \<Rightarrow> string" where
  "trimEnd s = rev (stripLeading (map rev whiteSpace) (rev s))"

definition trim :: "string \<Rightarrow> string" where
  "trim s = trimEnd (trimStart s)"

text \<open>The body of the \<open>try\<close> block up to the call of \<open>JSON.parse\<close>.\<close>

definition cleanResponse :: "string \<Rightarrow> string" where
  "cleanResponse response =
     (let cleaned0 = trim response;
          cleaned1 = (if prefix ''```json'' cleaned0 then drop 7 cleaned0
                      else if prefix ''```'' cleaned0 then drop 3 cleaned0
                      else cleaned0);
          cleaned2 = (if suffix ''```'' cleaned1 then take (length cleaned1 - 3) cleaned1
                      else cleaned1)
      in trim cleaned2)"

text \<open>
  The caller's array holds references to message objects; the store maps a reference to
  the object. \<open>[...messages]\<close> copies the array of references, not the objects.
  \<open>JSON.parse\<close> is a parameter that returns \<open>None\<close> where JavaScript raises a syntax
  error. The result is the store after the call, the lines written by \<open>console.error\<close>,
  and the value returned or the exception thrown.
\<close>

type_synonym ref = nat

type_synonym store = "ref \<Rightarrow> LLMMessage"

definition jsonInstruction :: string where
  "jsonInstruction =
     ''\<newline>\<newline>Respond with valid JSON only. No markdown, no explanation, just the JSON object.''"

definition generateJSONResponse ::
  "(GenerateTextRequest \<Rightarrow> error + string) \<Rightarrow> (string \<Rightarrow> 'a option) \<Rightarrow> store \<Rightarrow> ref list
     \<Rightarrow> LLMOptions \<Rightarrow> store \<times> (string \<times> string) list \<times> (error + 'a)" where
  "generateJSONResponse generateText JSON_parse store messages options =
     (let jsonMessages = messages;
          store' = (if jsonMessages \<noteq> [] \<and> role (store (last jsonMessages)) = User
                    then store (last jsonMessages :=
                           (store (last jsonMessages))
                             \<lparr>content := content (store (last jsonMessages)) @ jsonInstruction\<rparr>)
                    else store)
      in case generateLLMResponse generateText (map store' jsonMessages) options of
           Inl e \<Rightarrow> (store', [], Inl e)
         | Inr response \<Rightarrow>
             (case JSON_parse (cleanResponse response) of
                Some v \<Rightarrow> (store', [], Inr v)
              | None \<Rightarrow>
                  (store', [(''Failed to parse LLM response as JSON:'', response)],
                   Inl (Error ''LLM response was not valid JSON''))))"

section \<open>Notions used to state the properties\<close>

text \<open>The organization entry of a module, with the entries of its items in it.\<close>

definition moduleOrg :: "CanvasModule \<Rightarrow> string" where
  "moduleOrg m = moduleEntry m (map itemEntry (mod_items m))"

text \<open>A small course with one quiz, used to instantiate the general statements.\<close>

definition exampleQuiz :: CanvasModuleItem where
  \<open>exampleQuiz =
     \<lparr>item_id = ''item-1-1'', item_type = ''quiz'', item_title = ''Q & A'',
      item_content = None, item_position = 1, item_points = None, item_rubric = None,
      item_questions = None, item_prompt = None\<rparr>\<close>

definition exampleModule :: CanvasModule where
  \<open>exampleModule =
     \<lparr>mod_id = ''module-1'', mod_name = ''<Basics>'', mod_position = 1,
      mod_items = [exampleQuiz]\<rparr>\<close>

definition exampleCourse :: GeneratedCourse where
  \<open>exampleCourse =
     \<lparr>course_title = ''Tom'' @ [CHR 0x27] @ ''s "Intro"'', course_description = ''a < b'',
      course_welcomeMessage = '''', course_modules = [exampleModule]\<rparr>\<close>

text \<open>
  When the normalisation of the modules completes: no module and no item is \<open>null\<close> or
  \<open>undefined\<close>, and \<open>items\<close> is falsy or an array.
\<close>

definition itemsOk :: "jsval \<Rightarrow> bool" where
  "itemsOk m =
     (case orValue (property m ''items'') (JArr []) of
        JArr xs \<Rightarrow> \<forall>x \<in> set xs. \<not> nullish x
      | _ \<Rightarrow> False)"

definition modulesOk :: "jsval list \<Rightarrow> bool" where
  "modulesOk modules = (\<forall>m \<in> set modules. \<not> nullish m \<and> itemsOk m)"

text \<open>A reply with a module that lacks every field and a module that has them all.\<close>

definition exampleReply :: jsval where
  "exampleReply =
     JObj [(''title'', JStr ''Intro to X''),
           (''modules'', JArr
              [JObj [(''items'', JArr [JObj [(''type'', JStr ''page'')]])],
               JObj [(''id'', JStr ''m''), (''name'', JStr ''N''), (''position'', JNum 0),
                     (''items'', JArr [JObj [(''id'', JStr ''x''), (''type'', JStr ''quiz''),
                                             (''title'', JStr ''Quiz''), (''position'', JNum 0),
                                             (''points'', JNum 5)]])]])]"

text \<open>Strings of the ASCII white space characters: tab, line feed, vertical tab, form feed,
  carriage return and space.\<close>

definition asciiWhite :: "string \<Rightarrow> bool" where
  "asciiWhite w = (set w \<subseteq> {CHR 0x09, CHR 0x0A, CHR 0x0B, CHR 0x0C, CHR 0x0D, CHR 0x20})"

text \<open>
  What every JSON text satisfies: without the white space around it, it begins as a JSON
  value begins (an object, an array, a string, a number, \<open>true\<close>, \<open>false\<close> or \<open>null\<close>) and ends
  as one ends.
\<close>

definition jsonTextShape :: "string \<Rightarrow> bool" where
  \<open>jsonTextShape J =
     (case trim J of
        [] \<Rightarrow> False
      | c # cs \<Rightarrow> c \<in> set ''{["-0123456789tfn'' \<and> last (c # cs) \<in> set ''}]"0123456789el'')\<close>

text \<open>
  A sufficient condition for a text not to contain the tag \<open><name\<close>: wherever a \<open><\<close> occurs,
  what follows differs from \<open>name\<close> at some position inside the text. The condition is kept
  when texts are appended.
\<close>

primrec noTag :: "string \<Rightarrow> string \<Rightarrow> bool" where
  "noTag name [] = True"
| "noTag name (c # cs) =
     ((c = CHR ''<'' \<longrightarrow> \<not> prefix cs name \<and> \<not> prefix name cs) \<and> noTag name cs)"

text \<open>Three questions: an essay, the multiple-choice question of the specification, and a
  multiple-choice question without answers.\<close>

definition exampleQuestions :: "Question list" where
  "exampleQuestions =
     [\<lparr>question_type = ''essay'', question_text = ''Why?'', question_points = 5,
       question_answers = None\<rparr>,
      \<lparr>question_type = ''multiple_choice'', question_text = ''A or B?'', question_points = 10,
       question_answers = Some [\<lparr>answer_text = ''A'', answer_correct = False\<rparr>,
                                \<lparr>answer_text = ''B'', answer_correct = True\<rparr>]\<rparr>,
      \<lparr>question_type = ''multiple_choice'', question_text = ''Which?'', question_points = 2,
       question_answers = None\<rparr>]"

text \<open>The questions that are rendered with choices, and those with a scoring condition.\<close>

definition hasChoices :: "Question \<Rightarrow> bool" where
  "hasChoices q = (question_type q = ''multiple_choice'' \<and> question_answers q \<noteq> None)"

definition hasCorrectChoice :: "Question \<Rightarrow> bool" where
  "hasCorrectChoice q =
     (question_type q = ''multiple_choice''
      \<and> (case question_answers q of
            None \<Rightarrow> False
          | Some answers \<Rightarrow> \<exists>a \<in> set answers. answer_correct a))"

text \<open>A quiz with the two example questions that have no answer marked correct, and a quiz
  with the multiple-choice question without answers alone.\<close>

definition exampleOpenQuiz :: CanvasModuleItem where
  "exampleOpenQuiz =
     exampleQuiz\<lparr>item_questions := Some [exampleQuestions ! 0, exampleQuestions ! 2]\<rparr>"

definition exampleBareQuiz :: CanvasModuleItem where
  "exampleBareQuiz = exampleQuiz\<lparr>item_questions := Some [exampleQuestions ! 2]\<rparr>"

text \<open>The path and the content of the file that the exporter writes for an item.\<close>

definition itemFile :: "CanvasModuleItem \<Rightarrow> string \<times> string" where
  "itemFile item =
     (if item_type item = ''assignment'' then
        (''assignments/'' @ item_id item @ ''.html'', generateAssignmentHtml item)
      else if item_type item = ''discussion'' then
        (''discussions/'' @ item_id item @ ''.html'', generateDiscussionHtml item)
      else if item_type item = ''quiz'' then
        (''quizzes/'' @ item_id item @ ''.xml'', generateQuizQti item)
      else
        (item_id item @ ''.html'',
         generatePageHtml (item_title item) (orElse (item_content item) '''')))"

text \<open>The items of a course, module after module, in the order of the arrays.\<close>

definition allItems :: "GeneratedCourse \<Rightarrow> CanvasModuleItem list" where
  "allItems course = concat (map mod_items (course_modules course))"

text \<open>A list without the later repetitions of its elements.\<close>

definition firstOccurrences :: "'a list \<Rightarrow> 'a list" where
  "firstOccurrences xs = rev (remdups (rev xs))"

text \<open>A course with other values in the \<open>position\<close> fields of its modules and items.\<close>

definition reposition ::
  "(CanvasModule \<Rightarrow> int) \<Rightarrow> (CanvasModuleItem \<Rightarrow> int) \<Rightarrow> GeneratedCourse \<Rightarrow> GeneratedCourse" where
  "reposition f g course =
     course\<lparr>course_modules :=
       map (\<lambda>m. m\<lparr>mod_position := f m,
                     mod_items := map (\<lambda>i. i\<lparr>item_position := g i\<rparr>) (mod_items m)\<rparr>)
         (course_modules course)\<rparr>"

definition exampleCourseMoved :: GeneratedCourse where
  "exampleCourseMoved =
     exampleCourse\<lparr>course_modules :=
       [exampleModule\<lparr>mod_position := 7, mod_items := [exampleQuiz\<lparr>item_position := 9\<rparr>]\<rparr>]\<rparr>"

text \<open>The archive before the loop over the modules: the manifest, the overview page and the
  three folders.\<close>

definition initialArchive :: "string \<Rightarrow> string \<Rightarrow> GeneratedCourse \<Rightarrow> archive" where
  \<open>initialArchive overviewId manifestId course =
     [(''imsmanifest.xml'', File (generateManifest overviewId manifestId course)),
      (''course_overview.html'',
       File (generatePageHtml ''Welcome''
               (orDefault (course_welcomeMessage course) ''<p>Welcome to the course!</p>''))),
      (''assignments/'', Dir), (''discussions/'', Dir), (''quizzes/'', Dir)]\<close>

text \<open>
  A checker of well-formedness for the part of XML that the exporter writes. A document is a
  string of bytes, the UTF-8 encoding of its characters. It is accepted when

    \<^item> it is the UTF-8 encoding of characters that XML 1.0 admits (production \<open>Char\<close>: tab,
      line feed, carriage return, U+0020 to U+D7FF, U+E000 to U+FFFD, U+10000 to U+10FFFF);
      so the other control characters, the surrogates, U+FFFE and U+FFFF, and every byte
      sequence that is not the shortest encoding of a character are refused;

    \<^item> and it has the form: an optional XML declaration, then one root element; start tags
      with double- or single-quoted attributes of distinct names, end tags that match,
      empty-element tags; the five predefined entity references; white space only outside
      the root.

  Comments, CDATA sections, processing instructions, character references, a raw \<open>>\<close> in
  content and characters above the ASCII range in names are rejected, so a document that is
  accepted is well-formed.
\<close>

text \<open>The value of a byte; the bytes that continue a character; the second byte of a
  character of three or four bytes, whose range depends on the first (the encodings of the
  surrogates, those longer than needed and those above U+10FFFF are left out).\<close>

definition byte :: "char \<Rightarrow> nat" where
  "byte c = of_char c"

definition continuation :: "char \<Rightarrow> bool" where
  "continuation c = (0x80 \<le> byte c \<and> byte c \<le> 0xBF)"

definition secondByte :: "char \<Rightarrow> char \<Rightarrow> bool" where
  "secondByte a b =
     ((if byte a = 0xE0 then 0xA0 else if byte a = 0xF0 then 0x90 else 0x80) \<le> byte b
      \<and> byte b \<le> (if byte a = 0xED then 0x9F else if byte a = 0xF4 then 0x8F else 0xBF))"

text \<open>The strings that encode characters of XML only.\<close>

fun xmlChars :: "string \<Rightarrow> bool" where
  "xmlChars [] = True"
| "xmlChars (a # s) =
     (if byte a < 0x80 then
        (byte a = 0x09 \<or> byte a = 0x0A \<or> byte a = 0x0D \<or> 0x20 \<le> byte a) \<and> xmlChars s
      else if byte a < 0xE0 then
        (case s of
           b # s' \<Rightarrow> 0xC2 \<le> byte a \<and> continuation b \<and> xmlChars s'
         | _ \<Rightarrow> False)
      else if byte a < 0xF0 then
        (case s of
           b # c # s' \<Rightarrow>
             secondByte a b \<and> continuation c
             \<and> (byte a, byte b, byte c) \<noteq> (0xEF, 0xBF, 0xBE)
             \<and> (byte a, byte b, byte c) \<noteq> (0xEF, 0xBF, 0xBF)
             \<and> xmlChars s'
         | _ \<Rightarrow> False)
      else
        (case s of
           b # c # d # s' \<Rightarrow>
             byte a \<le> 0xF4 \<and> secondByte a b \<and> continuation c \<and> continuation d \<and> xmlChars s'
         | _ \<Rightarrow> False))"

definition isSpace :: "char \<Rightarrow> bool" where
  "isSpace c = (c \<in> {CHR 0x20, CHR 0x09, CHR 0x0A, CHR 0x0D})"

definition isNameStart :: "char \<Rightarrow> bool" where
  "isNameStart c = (c \<in> set ''abcdefghijklmnopqrstuvwxyzABCDEFGHIJKLMNOPQRSTUVWXYZ_:'')"

definition isNameChar :: "char \<Rightarrow> bool" where
  "isNameChar c = (isNameStart c \<or> c \<in> set ''0123456789-.'')"

text \<open>Where the reader stands: in content, in a tag, in an attribute, in a reference.\<close>

datatype xmlMode =
    Content
  | TagOpen
  | StartName string
  | Attributes bool "string list"
  | AttributeName "string list" string
  | AttributeEq "string list"
  | Value char "string list"
  | Reference xmlMode string
  | EmptyEnd
  | EndName string
  | EndSpace string
  | Reject

text \<open>The mode, the names of the open elements (innermost first), and whether the root
  element has begun.\<close>

type_synonym xmlState = "xmlMode \<times> string list \<times> bool"

fun xmlMove :: "xmlMode \<Rightarrow> string list \<Rightarrow> bool \<Rightarrow> char \<Rightarrow> xmlState" where
  "xmlMove Content stack seen c =
     (if c = CHR ''<'' then (TagOpen, stack, seen)
      else if stack = [] then (if isSpace c then (Content, stack, seen) else (Reject, stack, seen))
      else if c = CHR ''&'' then (Reference Content [], stack, seen)
      else if c = CHR ''>'' then (Reject, stack, seen)
      else (Content, stack, seen))"
| "xmlMove TagOpen stack seen c =
     (if c = CHR ''/'' then (if stack = [] then (Reject, stack, seen) else (EndName [], stack, seen))
      else if isNameStart c \<and> \<not> (stack = [] \<and> seen) then (StartName [c], stack, seen)
      else (Reject, stack, seen))"
| "xmlMove (StartName n) stack seen c =
     (if isNameChar c then (StartName (n @ [c]), stack, seen)
      else if isSpace c then (Attributes True [], n # stack, True)
      else if c = CHR ''>'' then (Content, n # stack, True)
      else if c = CHR ''/'' then (EmptyEnd, n # stack, True)
      else (Reject, stack, seen))"
| "xmlMove (Attributes sp names) stack seen c =
     (if isSpace c then (Attributes True names, stack, seen)
      else if c = CHR ''>'' then (Content, stack, seen)
      else if c = CHR ''/'' then (EmptyEnd, stack, seen)
      else if isNameStart c \<and> sp then (AttributeName names [c], stack, seen)
      else (Reject, stack, seen))"
| "xmlMove (AttributeName names n) stack seen c =
     (if isNameChar c then (AttributeName names (n @ [c]), stack, seen)
      else if c = CHR ''='' \<and> n \<notin> set names then (AttributeEq (n # names), stack, seen)
      else (Reject, stack, seen))"
| "xmlMove (AttributeEq names) stack seen c =
     (if c = CHR 0x22 \<or> c = CHR 0x27 then (Value c names, stack, seen)
      else (Reject, stack, seen))"
| "xmlMove (Value q names) stack seen c =
     (if c = q then (Attributes False names, stack, seen)
      else if c = CHR ''<'' then (Reject, stack, seen)
      else if c = CHR ''&'' then (Reference (Value q names) [], stack, seen)
      else (Value q names, stack, seen))"
| "xmlMove (Reference back n) stack seen c =
     (if c = CHR '';'' then
        (if n \<in> {''amp'', ''lt'', ''gt'', ''quot'', ''apos''} then (back, stack, seen)
         else (Reject, stack, seen))
      else if isNameChar c then (Reference back (n @ [c]), stack, seen)
      else (Reject, stack, seen))"
| "xmlMove EmptyEnd stack seen c =
     (if c = CHR ''>'' then (Content, tl stack, seen) else (Reject, stack, seen))"
| "xmlMove (EndName n) stack seen c =
     (if isNameChar c then (EndName (n @ [c]), stack, seen)
      else if isSpace c \<and> n \<noteq> [] then (EndSpace n, stack, seen)
      else if c = CHR ''>'' \<and> stack \<noteq> [] \<and> hd stack = n then (Content, tl stack, seen)
      else (Reject, stack, seen))"
| "xmlMove (EndSpace n) stack seen c =
     (if isSpace c then (EndSpace n, stack, seen)
      else if c = CHR ''>'' \<and> stack \<noteq> [] \<and> hd stack = n then (Content, tl stack, seen)
      else (Reject, stack, seen))"
| "xmlMove Reject stack seen c = (Reject, stack, seen)"

definition xmlStep :: "xmlState \<Rightarrow> char \<Rightarrow> xmlState" where
  "xmlStep s c = (case s of (mode, stack, seen) \<Rightarrow> xmlMove mode stack seen c)"

text \<open>The XML declaration is accepted in the one form the exporter writes.\<close>

definition xmlDeclaration :: string where
  \<open>xmlDeclaration = ''<?xml version="1.0" encoding="UTF-8"?>''\<close>

definition wellFormed :: "string \<Rightarrow> bool" where
  "wellFormed doc =
     (xmlChars doc
      \<and> (let body = (if prefix xmlDeclaration doc then drop (length xmlDeclaration) doc else doc)
         in foldl xmlStep (Content, [], False) body = (Content, [], True)))"

text \<open>Texts of XML characters only, and such texts that can stand unescaped inside a
  double-quoted attribute value.\<close>

definition attributeSafe :: "string \<Rightarrow> bool" where
  "attributeSafe s = (xmlChars s \<and> list_all (\<lambda>c. c \<notin> {CHR 0x22, CHR ''<'', CHR ''&''}) s)"

definition xmlText :: "string \<Rightarrow> bool" where
  "xmlText s = xmlChars s"

section \<open>Escaping\<close>

lemma replaceAll_append: "replaceAll c r (xs @ ys) = replaceAll c r xs @ replaceAll c r ys"
  by (induction xs) simp_all

lemma escapeXml_Nil: "escapeXml [] = []"
  by (simp add: escapeXml_def)

lemma escapeXml_Cons: "escapeXml (x # xs) = entity x @ escapeXml xs"
  by (simp add: escapeXml_def entity_def replaceAll_append)

lemma escapeXml_refines: "escapeXml s = escapeXml_spec s"
  by (induction s) (simp_all add: escapeXml_Nil escapeXml_Cons escapeXml_spec_def)

section \<open>The loops of the manifest\<close>

lemma join_empty: "join [] xs = concat xs"
  by (induction "[] :: string" xs rule: join.induct) simp_all

lemma itemsLoop_eq:
  "itemsLoop its rs mis = (rs @ map itemResource its, mis @ map itemEntry its)"
  by (induction its arbitrary: rs mis) simp_all

lemma modulesLoop_eq:
  "modulesLoop ms rs is =
     (rs @ concat (map (\<lambda>m. map itemResource (mod_items m)) ms), is @ map moduleOrg ms)"
  by (induction ms arbitrary: rs "is") (simp_all add: itemsLoop_eq moduleOrg_def)

lemma sublist_concat: "x \<in> set xs \<Longrightarrow> sublist x (concat xs)"
proof -
  assume "x \<in> set xs"
  then obtain ps ss where "xs = ps @ x # ss" by (auto simp: in_set_conv_decomp)
  then show ?thesis by simp
qed

section \<open>Where a text occurs in a rendering\<close>

lemma sublist_skip: "sublist x zs \<Longrightarrow> sublist x (p @ zs)"
  using sublist_order.order_trans sublist_append_leftI by blast

lemma sublist_keep: "sublist x zs \<Longrightarrow> sublist x (zs @ s)"
  using sublist_order.order_trans sublist_append_rightI by blast

lemma sublist_mid:
  "suffix a l1 \<Longrightarrow> prefix b l2 \<Longrightarrow> sublist (a @ x @ b) (l1 @ x @ l2)"
proof -
  assume "suffix a l1" "prefix b l2"
  then obtain l r where "l1 = l @ a" "l2 = b @ r" by (auto simp: suffix_def prefix_def)
  then have "l1 @ x @ l2 = l @ (a @ x @ b) @ r" by simp
  then show ?thesis using sublist_appendI by metis
qed

lemma sublist_mid':
  "suffix a l1 \<Longrightarrow> prefix b l2 \<Longrightarrow> sublist (a @ x @ b) (l1 @ x @ l2 @ s)"
proof -
  assume "suffix a l1" "prefix b l2"
  then obtain l r where "l1 = l @ a" "l2 = b @ r" by (auto simp: suffix_def prefix_def)
  then have "l1 @ x @ l2 @ s = l @ (a @ x @ b) @ (r @ s)" by simp
  then show ?thesis using sublist_appendI by metis
qed

lemma page_title:
  \<open>sublist (''<title>'' @ escapeXml t @ ''</title>'') (generatePageHtml t body)\<close>
  unfolding generatePageHtml_def
  apply (rule sublist_mid')
  by code_simp+

lemma itemEntry_title:
  \<open>sublist (''<title>'' @ escapeXml (item_title it) @ ''</title>'') (itemEntry it)\<close>
  unfolding itemEntry_def Let_def
  apply (rule sublist_skip)
  apply (rule sublist_skip)
  apply (rule sublist_skip)
  apply (rule sublist_skip)
  apply (rule sublist_mid)
  by code_simp+

lemma moduleOrg_name:
  \<open>sublist (''<title>'' @ escapeXml (mod_name m) @ ''</title>'') (moduleOrg m)\<close>
  unfolding moduleOrg_def moduleEntry_def Let_def
  apply (rule sublist_skip)
  apply (rule sublist_skip)
  apply (rule sublist_mid')
  by code_simp+

lemma moduleOrg_item:
  "it \<in> set (mod_items m) \<Longrightarrow> sublist (itemEntry it) (moduleOrg m)"
  unfolding moduleOrg_def moduleEntry_def Let_def join_empty
  apply (rule sublist_skip)
  apply (rule sublist_skip)
  apply (rule sublist_skip)
  apply (rule sublist_skip)
  apply (rule sublist_skip)
  apply (rule sublist_keep)
  apply (rule sublist_concat)
  by simp

lemma manifest_module:
  "m \<in> set (course_modules c) \<Longrightarrow> sublist (moduleOrg m) (generateManifest ov mid c)"
  unfolding generateManifest_def modulesLoop_eq Let_def prod.case join_empty
  apply (rule sublist_skip)
  apply (rule sublist_skip)
  apply (rule sublist_skip)
  apply (rule sublist_skip)
  apply (rule sublist_skip)
  apply (rule sublist_skip)
  apply (rule sublist_skip)
  apply (rule sublist_keep)
  apply (rule sublist_concat)
  by simp

lemma manifest_title:
  \<open>sublist (''<lomimscc:string>'' @ escapeXml (course_title c) @ ''</lomimscc:string>'')
     (generateManifest ov mid c)\<close>
  unfolding generateManifest_def modulesLoop_eq Let_def prod.case
  apply (rule sublist_skip)
  apply (rule sublist_skip)
  apply (rule sublist_mid')
  by code_simp+

lemma manifest_description:
  \<open>sublist (''<lomimscc:string>'' @ escapeXml (course_description c) @ ''</lomimscc:string>'')
     (generateManifest ov mid c)\<close>
  unfolding generateManifest_def modulesLoop_eq Let_def prod.case
  apply (rule sublist_skip)
  apply (rule sublist_skip)
  apply (rule sublist_skip)
  apply (rule sublist_skip)
  apply (rule sublist_mid')
  by code_simp+

lemma manifest_module_name:
  assumes "m \<in> set (course_modules c)"
  shows \<open>sublist (''<title>'' @ escapeXml (mod_name m) @ ''</title>'') (generateManifest ov mid c)\<close>
  using sublist_order.order_trans [OF moduleOrg_name manifest_module [OF assms]] .

lemma manifest_item_title:
  assumes "m \<in> set (course_modules c)" and "it \<in> set (mod_items m)"
  shows \<open>sublist (''<title>'' @ escapeXml (item_title it) @ ''</title>'') (generateManifest ov mid c)\<close>
  using sublist_order.order_trans [OF itemEntry_title
      sublist_order.order_trans [OF moduleOrg_item [OF assms(2)] manifest_module [OF assms(1)]]] .

text \<open>
  C5. \<open>escapeXml\<close> replaces every occurrence of \<open>&\<close>, \<open><\<close>, \<open>>\<close>, the double quote and the
  apostrophe by its entity and leaves every other character as it is; and the escaped form
  is the text of the course title and description, of every module name and of every item
  title in the manifest, and of the \<open><title>\<close> element of a page.
\<close>

theorem escapeXml_entities_and_uses:
  \<open>escapeXml s =
      concat (map (\<lambda>c. if c = CHR ''&'' then ''&amp;''
                        else if c = CHR ''<'' then ''&lt;''
                        else if c = CHR ''>'' then ''&gt;''
                        else if c = CHR 0x22 then ''&quot;''
                        else if c = CHR 0x27 then ''&apos;''
                        else [c]) s)
    \<and> sublist (''<lomimscc:string>'' @ escapeXml (course_title c) @ ''</lomimscc:string>'')
          (generateManifest ov mid c)
    \<and> sublist (''<lomimscc:string>'' @ escapeXml (course_description c) @ ''</lomimscc:string>'')
          (generateManifest ov mid c)
    \<and> (\<forall>m \<in> set (course_modules c).
          sublist (''<title>'' @ escapeXml (mod_name m) @ ''</title>'') (generateManifest ov mid c)
          \<and> (\<forall>it \<in> set (mod_items m).
                sublist (''<title>'' @ escapeXml (item_title it) @ ''</title>'')
                  (generateManifest ov mid c)))
    \<and> sublist (''<title>'' @ escapeXml t @ ''</title>'') (generatePageHtml t body)\<close>
proof -
  have "escapeXml s = concat (map entity s)"
    by (simp add: escapeXml_refines escapeXml_spec_def)
  moreover have "entity = (\<lambda>c. if c = CHR ''&'' then ''&amp;''
                        else if c = CHR ''<'' then ''&lt;''
                        else if c = CHR ''>'' then ''&gt;''
                        else if c = CHR 0x22 then ''&quot;''
                        else if c = CHR 0x27 then ''&apos;''
                        else [c])"
    by (rule ext) (simp only: entity_def)
  ultimately show ?thesis
    using manifest_title manifest_description manifest_module_name manifest_item_title page_title
    by simp
qed

theorem escapeXml_entities_and_uses_witness:
  \<open>exampleModule \<in> set (course_modules exampleCourse)
    \<and> exampleQuiz \<in> set (mod_items exampleModule)
    \<and> escapeXml (mod_name exampleModule) = ''&lt;Basics&gt;''
    \<and> sublist (''<title>'' @ ''&lt;Basics&gt;'' @ ''</title>'')
          (generateManifest ''i1'' ''i2'' exampleCourse)
    \<and> escapeXml (item_title exampleQuiz) = ''Q &amp; A''
    \<and> sublist (''<title>'' @ ''Q &amp; A'' @ ''</title>'')
          (generateManifest ''i1'' ''i2'' exampleCourse)\<close>
proof -
  have m: "exampleModule \<in> set (course_modules exampleCourse)"
    by (simp add: exampleCourse_def)
  have i: "exampleQuiz \<in> set (mod_items exampleModule)"
    by (simp add: exampleModule_def)
  have e1: \<open>escapeXml (mod_name exampleModule) = ''&lt;Basics&gt;''\<close>
    by (simp add: exampleModule_def escapeXml_def)
  have e2: \<open>escapeXml (item_title exampleQuiz) = ''Q &amp; A''\<close>
    by (simp add: exampleQuiz_def escapeXml_def)
  from escapeXml_entities_and_uses [of "[]" exampleCourse "''i1''" "''i2''" "[]" "[]"] m i
  have "sublist (''<title>'' @ escapeXml (mod_name exampleModule) @ ''</title>'')
          (generateManifest ''i1'' ''i2'' exampleCourse)"
    and "sublist (''<title>'' @ escapeXml (item_title exampleQuiz) @ ''</title>'')
          (generateManifest ''i1'' ''i2'' exampleCourse)"
    by blast+
  with m i e1 e2 show ?thesis by (simp only: simp_thms)
qed

section \<open>The normalisation of the course\<close>

lemma mapFrom_Inr:
  "mapFrom k f xs = Inr ys \<Longrightarrow>
     length ys = length xs \<and> (\<forall>i<length xs. f (k + i) (xs ! i) = Inr (ys ! i))"
proof (induction xs arbitrary: k ys)
  case Nil
  then show ?case by simp
next
  case (Cons x xs)
  from Cons.prems obtain y ys' where
    y: "f k x = Inr y" and ys': "mapFrom (Suc k) f xs = Inr ys'" and ys: "ys = y # ys'"
    by (auto split: sum.splits)
  from Cons.IH [OF ys'] have len: "length ys' = length xs"
    and nth: "\<And>i. i < length xs \<Longrightarrow> f (Suc k + i) (xs ! i) = Inr (ys' ! i)"
    by simp_all
  show ?case
  proof (intro conjI allI impI)
    show "length ys = length (x # xs)" using len ys by simp
  next
    fix i assume "i < length (x # xs)"
    then show "f (k + i) ((x # xs) ! i) = Inr (ys ! i)"
      using y ys nth [of "i - 1"] by (cases i) simp_all
  qed
qed

lemma mapFrom_returns:
  "(\<And>i. i < length xs \<Longrightarrow> \<exists>y. f (k + i) (xs ! i) = Inr y) \<Longrightarrow> \<exists>ys. mapFrom k f xs = Inr ys"
proof (induction xs arbitrary: k)
  case Nil
  then show ?case by simp
next
  case (Cons x xs)
  from Cons.prems [of 0] obtain y where y: "f k x = Inr y" by auto
  have "\<exists>ys. mapFrom (Suc k) f xs = Inr ys"
  proof (rule Cons.IH)
    fix i assume "i < length xs"
    then show "\<exists>y. f (Suc k + i) (xs ! i) = Inr y"
      using Cons.prems [of "Suc i"] by simp
  qed
  with y show ?case by auto
qed

lemma normalizeItem_fields:
  assumes "normalizeItem m j item = Inr out"
  shows "property out ''id'' =
           (if truthy (property item ''id'') then property item ''id''
            else JStr (''item-'' @ decimal (m + 1) @ ''-'' @ decimal (j + 1)))"
    and "property out ''type'' =
           (if truthy (property item ''type'') then property item ''type'' else JStr ''page'')"
    and "property out ''title'' =
           (if truthy (property item ''title'') then property item ''title''
            else JStr (''Item '' @ decimal (j + 1)))"
    and "property out ''position'' =
           (if nullish (property item ''position'') then JNum (of_nat (j + 1))
            else property item ''position'')"
    and "property out ''content'' = property item ''content''"
    and "property out ''points'' = property item ''points''"
    and "property out ''rubric'' = property item ''rubric''"
    and "property out ''questions'' = property item ''questions''"
    and "property out ''prompt'' = property item ''prompt''"
  using assms by (auto simp: normalizeItem_def orValue_def coalesce_def split: if_splits)

lemma normalizeModule_fields:
  assumes "normalizeModule i m = Inr out"
  shows "property out ''id'' =
           (if truthy (property m ''id'') then property m ''id''
            else JStr (''module-'' @ decimal (i + 1)))"
    and "property out ''name'' =
           (if truthy (property m ''name'') then property m ''name''
            else JStr (''Module '' @ decimal (i + 1)))"
    and "property out ''position'' =
           (if nullish (property m ''position'') then JNum (of_nat (i + 1))
            else property m ''position'')"
    and "\<exists>items outItems.
           orValue (property m ''items'') (JArr []) = JArr items
           \<and> property out ''items'' = JArr outItems
           \<and> mapFrom 0 (normalizeItem i) items = Inr outItems"
  using assms
  by (auto simp: normalizeModule_def normalizeItems_def orValue_def coalesce_def
           split: if_splits sum.splits jsval.splits)

lemma normalizeCourse_Inr:
  assumes "normalizeCourse course = Inr course'"
  shows "\<exists>modules out. property course ''modules'' = JArr modules
           \<and> property course' ''modules'' = JArr out
           \<and> truthy (property course ''title'')
           \<and> normalizeModules modules = Inr out"
proof -
  from assms obtain modules out where
    m: "property course ''modules'' = JArr modules" and
    t: "truthy (property course ''title'')" and
    n: "normalizeModules modules = Inr out" and
    c: "course' = setProperty course ''modules'' (JArr out)"
    by (auto simp: normalizeCourse_def split: if_splits jsval.splits sum.splits)
  from m obtain kvs where "course = JObj kvs" by (cases course) simp_all
  with c have "property course' ''modules'' = JArr out"
    by (simp add: update_conv')
  with m t n show ?thesis by blast
qed

lemma mapFrom_error:
  assumes "\<And>i x e. f i x = Inl e \<Longrightarrow> e = TypeError"
  shows "mapFrom k f xs = Inl e \<Longrightarrow> e = TypeError"
  using assms by (induction xs arbitrary: k) (auto split: sum.splits)

lemma normalizeItem_returns: "(\<exists>out. normalizeItem m j item = Inr out) \<longleftrightarrow> \<not> nullish item"
  by (simp add: normalizeItem_def)

lemma normalizeItem_error: "normalizeItem m j item = Inl e \<Longrightarrow> e = TypeError"
  by (simp add: normalizeItem_def split: if_splits)

lemma normalizeItems_error: "normalizeItems m v = Inl e \<Longrightarrow> e = TypeError"
  using mapFrom_error [of "normalizeItem m", OF normalizeItem_error]
  by (auto simp: normalizeItems_def split: jsval.splits)

lemma normalizeModule_error: "normalizeModule i m = Inl e \<Longrightarrow> e = TypeError"
  using normalizeItems_error
  by (auto simp: normalizeModule_def split: if_splits sum.splits)

lemma normalizeItems_returns:
  "(\<exists>out. normalizeItems i (property m ''items'') = Inr out) \<longleftrightarrow> itemsOk m"
proof (cases "orValue (property m ''items'') (JArr [])")
  case (JArr xs)
  show ?thesis
  proof
    assume "\<exists>out. normalizeItems i (property m ''items'') = Inr out"
    then obtain out where "mapFrom 0 (normalizeItem i) xs = Inr out"
      using JArr by (auto simp: normalizeItems_def)
    from mapFrom_Inr [OF this] have "\<forall>j<length xs. \<not> nullish (xs ! j)"
      by (auto simp: normalizeItem_def split: if_splits)
    then show "itemsOk m" using JArr by (auto simp: itemsOk_def in_set_conv_nth)
  next
    assume "itemsOk m"
    then have "\<And>j. j < length xs \<Longrightarrow> \<exists>y. normalizeItem i (0 + j) (xs ! j) = Inr y"
      using JArr normalizeItem_returns by (auto simp: itemsOk_def)
    from mapFrom_returns [of xs "normalizeItem i" 0, OF this]
    show "\<exists>out. normalizeItems i (property m ''items'') = Inr out"
      using JArr by (simp add: normalizeItems_def)
  qed
qed (auto simp: normalizeItems_def itemsOk_def)

lemma normalizeModule_returns:
  "(\<exists>out. normalizeModule i m = Inr out) \<longleftrightarrow> \<not> nullish m \<and> itemsOk m"
  using normalizeItems_returns [of i m]
  by (auto simp: normalizeModule_def split: sum.splits)

lemma normalizeModules_returns:
  "(\<exists>out. normalizeModules modules = Inr out) \<longleftrightarrow> modulesOk modules"
proof
  assume "\<exists>out. normalizeModules modules = Inr out"
  then obtain out where "mapFrom 0 normalizeModule modules = Inr out"
    by (auto simp: normalizeModules_def)
  from mapFrom_Inr [OF this]
  have "\<forall>i<length modules. \<exists>out. normalizeModule i (modules ! i) = Inr out"
    by auto
  then have "\<forall>i<length modules. \<not> nullish (modules ! i) \<and> itemsOk (modules ! i)"
    using normalizeModule_returns by blast
  then show "modulesOk modules" by (auto simp: modulesOk_def in_set_conv_nth)
next
  assume "modulesOk modules"
  then have "\<And>i. i < length modules \<Longrightarrow> \<exists>y. normalizeModule (0 + i) (modules ! i) = Inr y"
    using normalizeModule_returns by (auto simp: modulesOk_def)
  from mapFrom_returns [of modules normalizeModule 0, OF this]
  show "\<exists>out. normalizeModules modules = Inr out" by (simp add: normalizeModules_def)
qed

lemma normalizeModules_error: "normalizeModules modules = Inl e \<Longrightarrow> e = TypeError"
  using mapFrom_error [of normalizeModule, OF normalizeModule_error]
  by (auto simp: normalizeModules_def)

lemma normalizeCourse_valid:
  assumes "property course ''modules'' = JArr modules" and "truthy (property course ''title'')"
  shows "normalizeCourse course =
           (case normalizeModules modules of
              Inl e \<Rightarrow> Inl e
            | Inr out \<Rightarrow> Inr (setProperty course ''modules'' (JArr out)))"
proof -
  from assms(1) obtain kvs where "course = JObj kvs" by (cases course) simp_all
  with assms show ?thesis
    by (auto simp: normalizeCourse_def nullish_def isArray_def)
qed

lemma property_setProperty:
  assumes "property course k = JArr modules"
  shows "property (setProperty course k v) k = v"
proof -
  from assms obtain kvs where "course = JObj kvs" by (cases course) simp_all
  then show ?thesis by (simp add: update_conv')
qed

text \<open>
  C1, as the code has it. For a reply that passes the validation, the normalisation
  completes exactly when no module and no item is \<open>null\<close> or \<open>undefined\<close> and every
  truthy \<open>items\<close> is an array (otherwise it throws a \<open>TypeError\<close>). When it completes, the
  module at index \<open>i\<close> keeps its \<open>id\<close> and its \<open>name\<close> when they are truthy and receives
  \<open>module-{i+1}\<close> and \<open>Module {i+1}\<close> otherwise (absent, \<open>null\<close>, \<open>false\<close>, \<open>0\<close> or the empty
  string); it keeps its \<open>position\<close> unless that is \<open>undefined\<close> or \<open>null\<close>, when it receives
  \<open>i+1\<close>; a position \<open>0\<close> is kept.
\<close>

theorem normalize_module_fields:
  assumes "property course ''modules'' = JArr modules" and "truthy (property course ''title'')"
  shows "(modulesOk modules \<longrightarrow>
           (\<exists>course' out. normalizeCourse course = Inr course'
              \<and> property course' ''modules'' = JArr out \<and> length out = length modules
              \<and> (\<forall>i<length modules.
                    property (out ! i) ''id'' =
                      (if truthy (property (modules ! i) ''id'') then property (modules ! i) ''id''
                       else JStr (''module-'' @ decimal (i + 1)))
                    \<and> property (out ! i) ''name'' =
                      (if truthy (property (modules ! i) ''name'') then property (modules ! i) ''name''
                       else JStr (''Module '' @ decimal (i + 1)))
                    \<and> property (out ! i) ''position'' =
                      (if nullish (property (modules ! i) ''position'') then JNum (of_nat (i + 1))
                       else property (modules ! i) ''position''))))
       \<and> (\<not> modulesOk modules \<longrightarrow> normalizeCourse course = Inl TypeError)"
proof (intro conjI impI)
  assume "modulesOk modules"
  then obtain out where out: "normalizeModules modules = Inr out"
    using normalizeModules_returns by blast
  let ?c = "setProperty course ''modules'' (JArr out)"
  have c: "normalizeCourse course = Inr ?c"
    using normalizeCourse_valid [OF assms] out by simp
  have p: "property ?c ''modules'' = JArr out"
    using property_setProperty [OF assms(1)] .
  from out have m: "mapFrom 0 normalizeModule modules = Inr out"
    by (simp add: normalizeModules_def)
  from mapFrom_Inr [OF m] have len: "length out = length modules"
    and nth: "\<And>i. i < length modules \<Longrightarrow> normalizeModule i (modules ! i) = Inr (out ! i)"
    by simp_all
  show "\<exists>course' out. normalizeCourse course = Inr course'
              \<and> property course' ''modules'' = JArr out \<and> length out = length modules
              \<and> (\<forall>i<length modules.
                    property (out ! i) ''id'' =
                      (if truthy (property (modules ! i) ''id'') then property (modules ! i) ''id''
                       else JStr (''module-'' @ decimal (i + 1)))
                    \<and> property (out ! i) ''name'' =
                      (if truthy (property (modules ! i) ''name'') then property (modules ! i) ''name''
                       else JStr (''Module '' @ decimal (i + 1)))
                    \<and> property (out ! i) ''position'' =
                      (if nullish (property (modules ! i) ''position'') then JNum (of_nat (i + 1))
                       else property (modules ! i) ''position''))"
    using c p len normalizeModule_fields(1,2,3) [OF nth] by blast
next
  assume "\<not> modulesOk modules"
  then have "\<nexists>out. normalizeModules modules = Inr out"
    using normalizeModules_returns by blast
  then obtain e where e: "normalizeModules modules = Inl e"
    by (cases "normalizeModules modules") auto
  with normalizeModules_error have "e = TypeError" by blast
  with e show "normalizeCourse course = Inl TypeError"
    using normalizeCourse_valid [OF assms] by simp
qed

lemma exampleReply_modules:
  "property exampleReply ''modules'' = JArr
              [JObj [(''items'', JArr [JObj [(''type'', JStr ''page'')]])],
               JObj [(''id'', JStr ''m''), (''name'', JStr ''N''), (''position'', JNum 0),
                     (''items'', JArr [JObj [(''id'', JStr ''x''), (''type'', JStr ''quiz''),
                                             (''title'', JStr ''Quiz''), (''position'', JNum 0),
                                             (''points'', JNum 5)]])]]"
  by (simp add: exampleReply_def)

lemma decimal_digit: "n < 10 \<Longrightarrow> decimal n = [digit n]"
  by (simp add: decimal.simps)

theorem normalize_module_fields_witness:
  "\<exists>course' out. normalizeCourse exampleReply = Inr course'
      \<and> property course' ''modules'' = JArr out \<and> length out = 2
      \<and> property (out ! 0) ''id'' = JStr ''module-1''
      \<and> property (out ! 0) ''name'' = JStr ''Module 1''
      \<and> property (out ! 0) ''position'' = JNum 1
      \<and> property (out ! 1) ''id'' = JStr ''m''
      \<and> property (out ! 1) ''name'' = JStr ''N''
      \<and> property (out ! 1) ''position'' = JNum 0"
proof -
  have t: "truthy (property exampleReply ''title'')"
    by (simp add: exampleReply_def)
  have ok: "modulesOk [JObj [(''items'', JArr [JObj [(''type'', JStr ''page'')]])],
               JObj [(''id'', JStr ''m''), (''name'', JStr ''N''), (''position'', JNum 0),
                     (''items'', JArr [JObj [(''id'', JStr ''x''), (''type'', JStr ''quiz''),
                                             (''title'', JStr ''Quiz''), (''position'', JNum 0),
                                             (''points'', JNum 5)]])]]"
    by (simp add: modulesOk_def itemsOk_def nullish_def orValue_def)
  from normalize_module_fields [OF exampleReply_modules t] ok
  obtain course' out where
    "normalizeCourse exampleReply = Inr course'" "property course' ''modules'' = JArr out"
    "length out = 2"
    "property (out ! 0) ''id'' = JStr (''module-'' @ decimal 1)"
    "property (out ! 0) ''name'' = JStr (''Module '' @ decimal 1)"
    "property (out ! 0) ''position'' = JNum 1"
    "property (out ! 1) ''id'' = JStr ''m''"
    "property (out ! 1) ''name'' = JStr ''N''"
    "property (out ! 1) ''position'' = JNum 0"
    by (auto simp: nullish_def)
  then show ?thesis by (auto simp: decimal_digit digit_def)
qed

text \<open>
  C1 as stated fails: a module whose \<open>id\<close> and \<open>name\<close> are present and empty has them
  overwritten by the defaults.
\<close>

theorem normalize_module_empty_id_counterexample:
  "normalizeCourse
     (JObj [(''title'', JStr ''T''),
            (''modules'', JArr [JObj [(''id'', JStr ''''), (''name'', JStr ''''), (''position'', JNum 0)]])])
   = Inr (JObj [(''title'', JStr ''T''),
                (''modules'', JArr [JObj [(''id'', JStr ''module-1''), (''name'', JStr ''Module 1''),
                                          (''position'', JNum 0), (''items'', JArr [])]])])"
  by (simp add: normalizeCourse_def normalizeModules_def normalizeModule_def normalizeItems_def
        orValue_def coalesce_def nullish_def isArray_def decimal_digit digit_def)

text \<open>
  C2, as the code has it. When the normalisation completes, the item at index \<open>j\<close> of the
  module at index \<open>m\<close> keeps its \<open>id\<close>, \<open>type\<close> and \<open>title\<close> when they are truthy and receives
  \<open>item-{m+1}-{j+1}\<close>, \<open>page\<close> and \<open>Item {j+1}\<close> otherwise; it keeps its \<open>position\<close> unless
  that is \<open>undefined\<close> or \<open>null\<close>, when it receives \<open>j+1\<close>; and \<open>content\<close>, \<open>points\<close>,
  \<open>rubric\<close>, \<open>questions\<close> and \<open>prompt\<close> are passed through, \<open>undefined\<close> included.
\<close>

theorem normalize_item_fields:
  assumes "property course ''modules'' = JArr modules" and "truthy (property course ''title'')"
    and "modulesOk modules"
  shows "\<exists>course' out. normalizeCourse course = Inr course'
              \<and> property course' ''modules'' = JArr out \<and> length out = length modules
              \<and> (\<forall>m<length modules. \<exists>items outItems.
                    orValue (property (modules ! m) ''items'') (JArr []) = JArr items
                    \<and> property (out ! m) ''items'' = JArr outItems
                    \<and> length outItems = length items
                    \<and> (\<forall>j<length items.
                          property (outItems ! j) ''id'' =
                            (if truthy (property (items ! j) ''id'') then property (items ! j) ''id''
                             else JStr (''item-'' @ decimal (m + 1) @ ''-'' @ decimal (j + 1)))
                          \<and> property (outItems ! j) ''type'' =
                            (if truthy (property (items ! j) ''type'') then property (items ! j) ''type''
                             else JStr ''page'')
                          \<and> property (outItems ! j) ''title'' =
                            (if truthy (property (items ! j) ''title'') then property (items ! j) ''title''
                             else JStr (''Item '' @ decimal (j + 1)))
                          \<and> property (outItems ! j) ''position'' =
                            (if nullish (property (items ! j) ''position'') then JNum (of_nat (j + 1))
                             else property (items ! j) ''position'')
                          \<and> property (outItems ! j) ''content'' = property (items ! j) ''content''
                          \<and> property (outItems ! j) ''points'' = property (items ! j) ''points''
                          \<and> property (outItems ! j) ''rubric'' = property (items ! j) ''rubric''
                          \<and> property (outItems ! j) ''questions'' = property (items ! j) ''questions''
                          \<and> property (outItems ! j) ''prompt'' = property (items ! j) ''prompt''))"
proof -
  from assms(3) obtain out where out: "normalizeModules modules = Inr out"
    using normalizeModules_returns by blast
  let ?c = "setProperty course ''modules'' (JArr out)"
  have c: "normalizeCourse course = Inr ?c"
    using normalizeCourse_valid [OF assms(1,2)] out by simp
  have p: "property ?c ''modules'' = JArr out"
    using property_setProperty [OF assms(1)] .
  from out have "mapFrom 0 normalizeModule modules = Inr out"
    by (simp add: normalizeModules_def)
  from mapFrom_Inr [OF this] have len: "length out = length modules"
    and nth: "\<And>m. m < length modules \<Longrightarrow> normalizeModule m (modules ! m) = Inr (out ! m)"
    by simp_all
  have "\<exists>items outItems.
          orValue (property (modules ! m) ''items'') (JArr []) = JArr items
          \<and> property (out ! m) ''items'' = JArr outItems
          \<and> length outItems = length items
          \<and> (\<forall>j<length items.
                property (outItems ! j) ''id'' =
                  (if truthy (property (items ! j) ''id'') then property (items ! j) ''id''
                   else JStr (''item-'' @ decimal (m + 1) @ ''-'' @ decimal (j + 1)))
                \<and> property (outItems ! j) ''type'' =
                  (if truthy (property (items ! j) ''type'') then property (items ! j) ''type''
                   else JStr ''page'')
                \<and> property (outItems ! j) ''title'' =
                  (if truthy (property (items ! j) ''title'') then property (items ! j) ''title''
                   else JStr (''Item '' @ decimal (j + 1)))
                \<and> property (outItems ! j) ''position'' =
                  (if nullish (property (items ! j) ''position'') then JNum (of_nat (j + 1))
                   else property (items ! j) ''position'')
                \<and> property (outItems ! j) ''content'' = property (items ! j) ''content''
                \<and> property (outItems ! j) ''points'' = property (items ! j) ''points''
                \<and> property (outItems ! j) ''rubric'' = property (items ! j) ''rubric''
                \<and> property (outItems ! j) ''questions'' = property (items ! j) ''questions''
                \<and> property (outItems ! j) ''prompt'' = property (items ! j) ''prompt'')"
    if m: "m < length modules" for m
  proof -
    from normalizeModule_fields(4) [OF nth [OF m]] obtain items outItems where
      i: "orValue (property (modules ! m) ''items'') (JArr []) = JArr items" and
      o: "property (out ! m) ''items'' = JArr outItems" and
      mf: "mapFrom 0 (normalizeItem m) items = Inr outItems"
      by blast
    from mapFrom_Inr [OF mf] have l: "length outItems = length items"
      and n: "\<And>j. j < length items \<Longrightarrow> normalizeItem m j (items ! j) = Inr (outItems ! j)"
      by simp_all
    show ?thesis
      using i o l normalizeItem_fields [OF n] by blast
  qed
  with c p len show ?thesis by blast
qed

theorem normalize_item_fields_witness:
  "\<exists>course' out outItems. normalizeCourse exampleReply = Inr course'
      \<and> property course' ''modules'' = JArr out
      \<and> property (out ! 0) ''items'' = JArr outItems
      \<and> property (outItems ! 0) ''id'' = JStr ''item-1-1''
      \<and> property (outItems ! 0) ''type'' = JStr ''page''
      \<and> property (outItems ! 0) ''title'' = JStr ''Item 1''
      \<and> property (outItems ! 0) ''position'' = JNum 1
      \<and> property (outItems ! 0) ''content'' = JUndefined"
proof -
  have t: "truthy (property exampleReply ''title'')"
    by (simp add: exampleReply_def)
  have ok: "modulesOk [JObj [(''items'', JArr [JObj [(''type'', JStr ''page'')]])],
               JObj [(''id'', JStr ''m''), (''name'', JStr ''N''), (''position'', JNum 0),
                     (''items'', JArr [JObj [(''id'', JStr ''x''), (''type'', JStr ''quiz''),
                                             (''title'', JStr ''Quiz''), (''position'', JNum 0),
                                             (''points'', JNum 5)]])]]"
    by (simp add: modulesOk_def itemsOk_def nullish_def orValue_def)
  from normalize_item_fields [OF exampleReply_modules t ok]
  obtain course' out where c: "normalizeCourse exampleReply = Inr course'"
    and p: "property course' ''modules'' = JArr out"
    and a: "\<forall>m<2. \<exists>items outItems.
       orValue (property ([JObj [(''items'', JArr [JObj [(''type'', JStr ''page'')]])],
               JObj [(''id'', JStr ''m''), (''name'', JStr ''N''), (''position'', JNum 0),
                     (''items'', JArr [JObj [(''id'', JStr ''x''), (''type'', JStr ''quiz''),
                                             (''title'', JStr ''Quiz''), (''position'', JNum 0),
                                             (''points'', JNum 5)]])]] ! m) ''items'') (JArr []) = JArr items
                    \<and> property (out ! m) ''items'' = JArr outItems
                    \<and> length outItems = length items
                    \<and> (\<forall>j<length items.
                          property (outItems ! j) ''id'' =
                            (if truthy (property (items ! j) ''id'') then property (items ! j) ''id''
                             else JStr (''item-'' @ decimal (m + 1) @ ''-'' @ decimal (j + 1)))
                          \<and> property (outItems ! j) ''type'' =
                            (if truthy (property (items ! j) ''type'') then property (items ! j) ''type''
                             else JStr ''page'')
                          \<and> property (outItems ! j) ''title'' =
                            (if truthy (property (items ! j) ''title'') then property (items ! j) ''title''
                             else JStr (''Item '' @ decimal (j + 1)))
                          \<and> property (outItems ! j) ''position'' =
                            (if nullish (property (items ! j) ''position'') then JNum (of_nat (j + 1))
                             else property (items ! j) ''position'')
                          \<and> property (outItems ! j) ''content'' = property (items ! j) ''content''
                          \<and> property (outItems ! j) ''points'' = property (items ! j) ''points''
                          \<and> property (outItems ! j) ''rubric'' = property (items ! j) ''rubric''
                          \<and> property (outItems ! j) ''questions'' = property (items ! j) ''questions''
                          \<and> property (outItems ! j) ''prompt'' = property (items ! j) ''prompt'')"
    by auto
  from a [rule_format, of 0] obtain outItems where
    "property (out ! 0) ''items'' = JArr outItems"
    "property (outItems ! 0) ''id'' = JStr (''item-'' @ decimal 1 @ ''-'' @ decimal 1)"
    "property (outItems ! 0) ''type'' = JStr ''page''"
    "property (outItems ! 0) ''title'' = JStr (''Item '' @ decimal 1)"
    "property (outItems ! 0) ''position'' = JNum 1"
    "property (outItems ! 0) ''content'' = JUndefined"
    by (auto simp: orValue_def nullish_def)
  with c p show ?thesis by (auto simp: decimal_digit digit_def)
qed

text \<open>
  C2 as stated fails: an item whose \<open>id\<close>, \<open>type\<close> and \<open>title\<close> are present and empty
  receives the defaults.
\<close>

theorem normalize_item_empty_title_counterexample:
  "normalizeCourse
     (JObj [(''title'', JStr ''T''),
            (''modules'', JArr [JObj [(''id'', JStr ''m''), (''name'', JStr ''M''), (''position'', JNum 1),
               (''items'', JArr [JObj [(''id'', JStr ''''), (''type'', JStr ''''), (''title'', JStr ''''),
                                       (''position'', JNum 0)]])]])])
   = Inr (JObj [(''title'', JStr ''T''),
                (''modules'', JArr [JObj [(''id'', JStr ''m''), (''name'', JStr ''M''),
                   (''position'', JNum 1),
                   (''items'', JArr [JObj [(''id'', JStr ''item-1-1''), (''type'', JStr ''page''),
                      (''title'', JStr ''Item 1''), (''content'', JUndefined), (''position'', JNum 0),
                      (''points'', JUndefined), (''rubric'', JUndefined), (''questions'', JUndefined),
                      (''prompt'', JUndefined)]])]])])"
  by (simp add: normalizeCourse_def normalizeModules_def normalizeModule_def normalizeItems_def
        normalizeItem_def orValue_def coalesce_def nullish_def isArray_def decimal_digit digit_def)

section \<open>Trimming and the code fences\<close>

lemma whiteSpace_nonempty: "[] \<notin> set whiteSpace"
  by (simp add: whiteSpace_def)

lemma whiteSpace_rev_nonempty: "[] \<notin> set (map rev whiteSpace)"
  by (simp add: whiteSpace_def)

lemma find_None_iff': "find P xs = None \<longleftrightarrow> (\<forall>x \<in> set xs. \<not> P x)"
  by (induction xs) auto

lemma stripLeading_clean:
  "[] \<notin> set ws \<Longrightarrow> find (\<lambda>w. prefix w (stripLeading ws s)) ws = None"
proof (induction ws s rule: stripLeading.induct)
  case (1 ws)
  then show ?case by (auto simp: find_None_iff')
next
  case (2 ws c cs)
  then show ?case by (cases "find (\<lambda>w. prefix w (c # cs)) ws") auto
qed

lemma stripLeading_id:
  "find (\<lambda>w. prefix w s) ws = None \<Longrightarrow> stripLeading ws s = s"
  by (cases s) auto

lemma stripLeading_suffix: "suffix (stripLeading ws s) s"
proof (induction ws s rule: stripLeading.induct)
  case (1 ws)
  then show ?case by simp
next
  case (2 ws c cs)
  show ?case
  proof (cases "find (\<lambda>w. prefix w (c # cs)) ws")
    case None
    then show ?thesis by simp
  next
    case (Some w)
    with 2 have "suffix (stripLeading ws (c # cs)) (drop (length w - 1) cs)" by simp
    then show ?thesis
      by (meson suffix_ConsI suffix_drop suffix_order.order_trans)
  qed
qed

lemma find_unique:
  assumes free: "\<And>w w'. w \<in> set ws \<Longrightarrow> w' \<in> set ws \<Longrightarrow> prefix w w' \<Longrightarrow> w = w'"
    and w: "w \<in> set ws" "prefix w x"
  shows "find (\<lambda>w. prefix w x) ws = Some w"
proof -
  from w have "find (\<lambda>w. prefix w x) ws \<noteq> None" by (auto simp: find_None_iff')
  then obtain w' where f: "find (\<lambda>w. prefix w x) ws = Some w'" by auto
  then have "w' \<in> set ws" "prefix w' x" by (auto simp: find_Some_iff)
  with w have "prefix w w' \<or> prefix w' w" using prefix_same_cases by blast
  with free w(1) \<open>w' \<in> set ws\<close> have "w' = w" by blast
  with f show ?thesis by simp
qed

lemma whiteSpace_length_all:
  "list_all (\<lambda>w. w \<noteq> [] \<and> length w = (if hd w = CHR 0xC2 then 2 else if (of_char (hd w) :: nat) < 0x80 then 1 else 3)) whiteSpace"
  by (simp add: whiteSpace_def)

lemma whiteSpace_length:
  "w \<in> set whiteSpace \<Longrightarrow>
     w \<noteq> [] \<and> length w = (if hd w = CHR 0xC2 then 2 else if (of_char (hd w) :: nat) < 0x80 then 1 else 3)"
  using whiteSpace_length_all unfolding list_all_iff by blast

lemma whiteSpace_prefix_free:
  assumes "w \<in> set whiteSpace" "w' \<in> set whiteSpace" "prefix w w'"
  shows "w = w'"
proof -
  from assms(3) obtain r where r: "w' = w @ r" by (auto simp: prefix_def)
  from whiteSpace_length [OF assms(1)] have "w \<noteq> []" by simp
  with r have "hd w' = hd w" by simp
  with whiteSpace_length [OF assms(1)] whiteSpace_length [OF assms(2)]
  have "length w' = length w" by simp
  with r show ?thesis by simp
qed

lemma whiteSpace_continuation_all:
  "list_all (\<lambda>w. list_all (\<lambda>c. (0x80::nat) \<le> of_char c) (tl w)) whiteSpace"
  by (simp add: whiteSpace_def)

lemma whiteSpace_continuation:
  "w \<in> set whiteSpace \<Longrightarrow> c \<in> set (tl w) \<Longrightarrow> (0x80::nat) \<le> of_char c"
  using whiteSpace_continuation_all unfolding list_all_iff by blast

lemma whiteSpace_boundary:
  assumes "w \<in> set whiteSpace" and "prefix w (s @ t)" and "s \<noteq> []"
    and "t = [] \<or> (of_char (hd t) :: nat) < 0x80"
  shows "prefix w s"
proof (rule ccontr)
  assume n: "\<not> prefix w s"
  with assms(2) obtain us where us: "w = s @ us" "prefix us t"
    by (auto simp: prefix_append)
  with n have "us \<noteq> []" by auto
  with us(2) have t: "t \<noteq> []" "hd us = hd t" by (auto simp: prefix_def)
  from us(1) assms(3) \<open>us \<noteq> []\<close> have "hd us \<in> set (tl w)"
    by (cases s) auto
  from whiteSpace_continuation [OF assms(1) this] t assms(4) show False by simp
qed

lemma ascii_white_find:
  assumes "c \<in> {CHR 0x09, CHR 0x0A, CHR 0x0B, CHR 0x0C, CHR 0x0D, CHR 0x20}"
  shows "find (\<lambda>w. prefix w (c # cs)) whiteSpace = Some [c]"
    and "find (\<lambda>w. prefix w (c # cs)) (map rev whiteSpace) = Some [c]"
  using assms unfolding whiteSpace_def by (elim insertE emptyE; simp)+

lemma trimStart_ascii: "asciiWhite w \<Longrightarrow> trimStart (w @ s) = trimStart s"
proof (induction w)
  case Nil
  then show ?case by simp
next
  case (Cons c w)
  then have "c \<in> {CHR 0x09, CHR 0x0A, CHR 0x0B, CHR 0x0C, CHR 0x0D, CHR 0x20}" "asciiWhite w"
    by (auto simp: asciiWhite_def)
  with Cons.IH ascii_white_find(1) [of c "w @ s"] show ?case
    by (simp add: trimStart_def)
qed

lemma trimEnd_ascii: "asciiWhite w \<Longrightarrow> trimEnd (s @ w) = trimEnd s"
proof (induction w rule: rev_induct)
  case Nil
  then show ?case by simp
next
  case (snoc c w)
  then have c: "c \<in> {CHR 0x09, CHR 0x0A, CHR 0x0B, CHR 0x0C, CHR 0x0D, CHR 0x20}" and "asciiWhite w"
    by (auto simp: asciiWhite_def)
  with snoc.IH have "trimEnd (s @ w) = trimEnd s" by simp
  moreover have "trimEnd (s @ w @ [c]) = trimEnd (s @ w)"
    using ascii_white_find(2) [OF c, of "rev w @ rev s"] by (simp add: trimEnd_def)
  ultimately show ?case by simp
qed

lemma trimStart_append:
  assumes t: "t = [] \<or> (of_char (hd t) :: nat) < 0x80"
  shows "trimStart s \<noteq> [] \<Longrightarrow> trimStart (s @ t) = trimStart s @ t"
  unfolding trimStart_def
proof (induction whiteSpace s rule: stripLeading.induct)
  case 1
  then show ?case by simp
next
  case (2 c cs)
  show ?case
  proof (cases "find (\<lambda>w. prefix w (c # cs)) whiteSpace")
    case None
    have "find (\<lambda>w. prefix w ((c # cs) @ t)) whiteSpace = None"
      unfolding find_None_iff'
    proof
      fix w assume w: "w \<in> set whiteSpace"
      show "\<not> prefix w ((c # cs) @ t)"
      proof
        assume "prefix w ((c # cs) @ t)"
        from whiteSpace_boundary [OF w this _ t] have "prefix w (c # cs)" by simp
        with None w show False by (auto simp: find_None_iff')
      qed
    qed
    with None show ?thesis by simp
  next
    case (Some w)
    then have w: "w \<in> set whiteSpace" "prefix w (c # cs)" by (auto simp: find_Some_iff)
    then have "prefix w ((c # cs) @ t)" by (metis prefix_prefix)
    from find_unique [of whiteSpace, OF whiteSpace_prefix_free w(1) this]
    have f: "find (\<lambda>w. prefix w (c # cs @ t)) whiteSpace = Some w" by simp
    from w(2) have "length w \<le> length (c # cs)" by (rule prefix_length_le)
    then have "length w - 1 \<le> length cs" by simp
    then have d: "drop (length w - 1) (cs @ t) = drop (length w - 1) cs @ t" by simp
    from 2 Some have "stripLeading whiteSpace (drop (length w - 1) cs) \<noteq> []" by simp
    from "2.hyps" [OF Some this] Some f d show ?thesis by simp
  qed
qed

lemma trimStart_clean: "find (\<lambda>w. prefix w (trimStart s)) whiteSpace = None"
  unfolding trimStart_def by (rule stripLeading_clean [OF whiteSpace_nonempty])

lemma trimEnd_prefix: "prefix (trimEnd s) s"
  unfolding trimEnd_def using stripLeading_suffix [of "map rev whiteSpace" "rev s"]
  by (simp add: suffix_to_prefix)

lemma trimEnd_idem: "trimEnd (trimEnd s) = trimEnd s"
  unfolding trimEnd_def
  using stripLeading_id [OF stripLeading_clean [OF whiteSpace_rev_nonempty, of "rev s"]]
  by simp

lemma trimStart_id: "find (\<lambda>w. prefix w s) whiteSpace = None \<Longrightarrow> trimStart s = s"
  unfolding trimStart_def by (rule stripLeading_id)

lemma trimStart_trimEnd:
  assumes "find (\<lambda>w. prefix w s) whiteSpace = None"
  shows "trimStart (trimEnd s) = trimEnd s"
proof (rule trimStart_id, unfold find_None_iff', rule ballI)
  fix w assume w: "w \<in> set whiteSpace"
  show "\<not> prefix w (trimEnd s)"
  proof
    assume "prefix w (trimEnd s)"
    with trimEnd_prefix [of s] have "prefix w s" using prefix_order.order_trans by blast
    with assms w show False by (auto simp: find_None_iff')
  qed
qed

lemma trim_idem: "trim (trim s) = trim s"
  unfolding trim_def
  by (simp add: trimStart_trimEnd [OF trimStart_clean] trimEnd_idem)

lemma trimStart_backtick: "trimStart (CHR ''`'' # s) = CHR ''`'' # s"
  by (simp add: trimStart_def whiteSpace_def)

lemma trimEnd_backtick: "trimEnd (s @ ''`'') = s @ ''`''"
  by (simp add: trimEnd_def whiteSpace_def)

lemma trim_fenced:
  assumes "asciiWhite w0" and "asciiWhite w3"
  shows "trim (w0 @ (CHR ''`'' # s @ ''`'') @ w3) = CHR ''`'' # s @ ''`''"
proof -
  have "trimStart (w0 @ (CHR ''`'' # s @ ''`'') @ w3) = (CHR ''`'' # s @ ''`'') @ w3"
    using trimStart_ascii [OF assms(1), of "(CHR ''`'' # s @ ''`'') @ w3"]
    by (simp add: trimStart_backtick)
  moreover have "trimEnd ((CHR ''`'' # s @ ''`'') @ w3) = CHR ''`'' # s @ ''`''"
    using trimEnd_ascii [OF assms(2), of "CHR ''`'' # s @ ''`''"]
      trimEnd_backtick [of "CHR ''`'' # s"]
    by simp
  ultimately show ?thesis by (simp add: trim_def)
qed

lemma jsonTextShape_trim:
  assumes "jsonTextShape J"
  shows "trim J \<noteq> []" and "hd (trim J) \<noteq> CHR ''`''" and "last (trim J) \<noteq> CHR ''`''"
    and "hd (trim J) \<noteq> CHR ''j''"
  using assms by (auto simp: jsonTextShape_def split: list.splits)

lemma trim_inner:
  assumes "jsonTextShape J" "asciiWhite w1" "asciiWhite w2"
  shows "trim (w1 @ J @ w2) = trim J"
proof -
  from jsonTextShape_trim(1) [OF assms(1)] have ne: "trimStart J \<noteq> []"
    by (auto simp: trim_def trimEnd_def)
  have t: "w2 = [] \<or> (of_char (hd w2) :: nat) < 0x80"
    using assms(3) by (cases w2) (auto simp: asciiWhite_def)
  have "trimStart (w1 @ J @ w2) = trimStart (J @ w2)"
    by (rule trimStart_ascii [OF assms(2)])
  also have "\<dots> = trimStart J @ w2"
    by (rule trimStart_append [OF t ne])
  finally show ?thesis
    by (simp add: trim_def trimEnd_ascii [OF assms(3)])
qed

lemma cleanResponse_plain:
  assumes "jsonTextShape J"
  shows "cleanResponse J = trim J"
proof -
  note s = jsonTextShape_trim [OF assms]
  from s(1,2) have p: "\<not> prefix ''```json'' (trim J)" "\<not> prefix ''```'' (trim J)"
    by (cases "trim J"; simp)+
  from s(1,3) have q: "\<not> suffix ''```'' (trim J)"
    by (auto simp: suffix_def)
  from p q show ?thesis by (simp add: cleanResponse_def trim_idem)
qed

lemma cleanResponse_fence_json:
  assumes "jsonTextShape J" "asciiWhite w1" "asciiWhite w2" "asciiWhite w0" "asciiWhite w3"
  shows "cleanResponse (w0 @ ''```json'' @ w1 @ J @ w2 @ ''```'' @ w3) = trim J"
proof -
  have "trim (w0 @ ''```json'' @ w1 @ J @ w2 @ ''```'' @ w3) = ''```json'' @ w1 @ J @ w2 @ ''```''"
    using trim_fenced [OF assms(4,5), of "''``json'' @ w1 @ J @ w2 @ ''``''"] by simp
  moreover have "suffix ''```'' (w1 @ J @ w2 @ ''```'')"
    by (metis append.assoc suffixI)
  moreover have "take (length (w1 @ J @ w2 @ ''```'') - 3) (w1 @ J @ w2 @ ''```'') = w1 @ J @ w2"
    by simp
  ultimately show ?thesis
    using trim_inner [OF assms(1,2,3)] by (simp add: cleanResponse_def)
qed

lemma not_json_prefix:
  assumes "jsonTextShape J" "asciiWhite w1"
  shows "\<not> prefix ''json'' (w1 @ J @ r)"
proof (cases w1)
  case Nil
  show ?thesis
  proof
    assume "prefix ''json'' (w1 @ J @ r)"
    with Nil jsonTextShape_trim(1) [OF assms(1)] obtain J' where J: "J = CHR ''j'' # J'"
      by (cases J) (auto simp: trim_def trimStart_def trimEnd_def)
    have "trimStart J = J" unfolding J by (simp add: trimStart_def whiteSpace_def)
    then have "prefix (trim J) J" using trimEnd_prefix [of J] by (simp add: trim_def)
    with jsonTextShape_trim(1) [OF assms(1)] J have "hd (trim J) = CHR ''j''"
      by (cases "trim J") auto
    with jsonTextShape_trim(4) [OF assms(1)] show False by simp
  qed
next
  case (Cons c w)
  with assms(2) show ?thesis by (auto simp: asciiWhite_def)
qed

lemma cleanResponse_fence_bare:
  assumes "jsonTextShape J" "asciiWhite w1" "asciiWhite w2" "asciiWhite w0" "asciiWhite w3"
  shows "cleanResponse (w0 @ ''```'' @ w1 @ J @ w2 @ ''```'' @ w3) = trim J"
proof -
  have "trim (w0 @ ''```'' @ w1 @ J @ w2 @ ''```'' @ w3) = ''```'' @ w1 @ J @ w2 @ ''```''"
    using trim_fenced [OF assms(4,5), of "''``'' @ w1 @ J @ w2 @ ''``''"] by simp
  moreover have "\<not> prefix ''```json'' (''```'' @ w1 @ J @ w2 @ ''```'')"
    using not_json_prefix [OF assms(1,2), of "w2 @ ''```''"] by simp
  moreover have "suffix ''```'' (w1 @ J @ w2 @ ''```'')"
    by (metis append.assoc suffixI)
  moreover have "take (length (w1 @ J @ w2 @ ''```'') - 3) (w1 @ J @ w2 @ ''```'') = w1 @ J @ w2"
    by simp
  ultimately show ?thesis
    using trim_inner [OF assms(1,2,3)] by (simp add: cleanResponse_def)
qed

text \<open>
  C6. When the reply is a JSON text inside a \<open>```json\<close> fence or a bare \<open>```\<close> fence (with
  any white space between the fence markers and the text and around the fence),
  \<open>generateJSONResponse\<close> returns what it returns for the text alone: the value parsed from
  the trimmed text. And when the reply,
  with its fences stripped, does not parse, it throws the error \<open>LLM response was not valid
  JSON\<close> and logs the raw reply.
\<close>

theorem generateJSONResponse_fence_and_failure:
  assumes "jsonTextShape J" and "asciiWhite w1" and "asciiWhite w2"
    and "asciiWhite w0" and "asciiWhite w3"
  shows "snd (snd (generateJSONResponse
                      (\<lambda>request. Inr (w0 @ ''```json'' @ w1 @ J @ w2 @ ''```'' @ w3))
                      JSON_parse store messages options))
           = snd (snd (generateJSONResponse (\<lambda>request. Inr J) JSON_parse store messages options))
       \<and> snd (snd (generateJSONResponse
                      (\<lambda>request. Inr (w0 @ ''```'' @ w1 @ J @ w2 @ ''```'' @ w3))
                      JSON_parse store messages options))
           = snd (snd (generateJSONResponse (\<lambda>request. Inr J) JSON_parse store messages options))
       \<and> snd (snd (generateJSONResponse (\<lambda>request. Inr J) JSON_parse store messages options))
           = (case JSON_parse (trim J) of
                Some v \<Rightarrow> Inr v
              | None \<Rightarrow> Inl (Error ''LLM response was not valid JSON''))
       \<and> (JSON_parse (cleanResponse response) = None \<longrightarrow>
             snd (generateJSONResponse (\<lambda>request. Inr response) JSON_parse store messages options)
               = ([(''Failed to parse LLM response as JSON:'', response)],
                  Inl (Error ''LLM response was not valid JSON'')))"
  using cleanResponse_plain [OF assms(1)] cleanResponse_fence_json [OF assms]
    cleanResponse_fence_bare [OF assms]
  by (simp add: generateJSONResponse_def generateLLMResponse_def Let_def split: option.splits)

theorem generateJSONResponse_fence_and_failure_witness:
  \<open>jsonTextShape ''{"a": 1}'' \<and> asciiWhite ''\<newline>''
    \<and> snd (snd (generateJSONResponse (\<lambda>request. Inr ''```json\<newline>{"a": 1}\<newline>```'')
                   (\<lambda>s. if s = ''{"a": 1}'' then Some True else None)
                   (\<lambda>r. \<lparr>role = User, content = ''q''\<rparr>) [0]
                   \<lparr>temperature = None, maxTokens = None\<rparr>)) = Inr True
    \<and> snd (generateJSONResponse (\<lambda>request. Inr ''{"a": 1,}'')
              (\<lambda>s. if s = ''{"a": 1}'' then Some True else None)
              (\<lambda>r. \<lparr>role = User, content = ''q''\<rparr>) [0]
              \<lparr>temperature = None, maxTokens = None\<rparr>)
        = ([(''Failed to parse LLM response as JSON:'', ''{"a": 1,}'')],
           Inl (Error ''LLM response was not valid JSON''))\<close>
proof -
  have j: \<open>jsonTextShape ''{"a": 1}''\<close>
    by (simp add: jsonTextShape_def trim_def trimStart_def trimEnd_def whiteSpace_def)
  have w: \<open>asciiWhite ''\<newline>''\<close> and e: "asciiWhite []"
    by (simp_all add: asciiWhite_def)
  have t: \<open>trim ''{"a": 1}'' = ''{"a": 1}''\<close>
    by (simp add: trim_def trimStart_def trimEnd_def whiteSpace_def)
  have c: \<open>cleanResponse ''{"a": 1,}'' = ''{"a": 1,}''\<close>
    by code_simp
  from generateJSONResponse_fence_and_failure [OF j w w e e,
      of "\<lambda>s. if s = ''{'' @ [CHR 0x22] @ ''a'' @ [CHR 0x22] @ '': 1}'' then Some True else None"
         "\<lambda>r. \<lparr>role = User, content = ''q''\<rparr>" "[0]" "\<lparr>temperature = None, maxTokens = None\<rparr>"
         "''{'' @ [CHR 0x22] @ ''a'' @ [CHR 0x22] @ '': 1,}''"]
  show ?thesis using j w t c by simp
qed

text \<open>
  C7. The claim holds of the array (it is copied) and fails of the message objects: the last
  message of the copy is the caller's object, and the instruction is appended to its
  content. After a call with the single user message \<open>Describe the course\<close>, the caller's
  message is no longer what it was.
\<close>

theorem generateJSONResponse_changes_caller_message:
  "content (fst (generateJSONResponse generateText JSON_parse
                   (\<lambda>r. \<lparr>role = User, content = ''Describe the course''\<rparr>) [0] options) 0)
     = ''Describe the course'' @ jsonInstruction
   \<and> content (fst (generateJSONResponse generateText JSON_parse
                   (\<lambda>r. \<lparr>role = User, content = ''Describe the course''\<rparr>) [0] options) 0)
     \<noteq> ''Describe the course''"
  by (simp add: generateJSONResponse_def Let_def jsonInstruction_def split: sum.splits option.splits)

section \<open>The questions of a quiz\<close>

lemma incomparable_append:
  assumes "\<not> prefix x n" "\<not> prefix n x"
  shows "\<not> prefix (x @ b) n \<and> \<not> prefix n (x @ b)"
proof (intro conjI notI)
  assume "prefix (x @ b) n"
  then have "prefix x n" by (rule append_prefixD)
  with assms show False by simp
next
  assume "prefix n (x @ b)"
  moreover have "prefix x (x @ b)" by simp
  ultimately have "prefix n x \<or> prefix x n" by (rule prefix_same_cases)
  with assms show False by blast
qed

lemma noTag_append: "noTag n a \<Longrightarrow> noTag n b \<Longrightarrow> noTag n (a @ b)"
  by (induction a) (auto dest: incomparable_append)

lemma noTag_concat: "(\<And>x. x \<in> set xs \<Longrightarrow> noTag n x) \<Longrightarrow> noTag n (concat xs)"
  by (induction xs) (simp_all add: noTag_append)

lemma noTag_plain: "CHR ''<'' \<notin> set s \<Longrightarrow> noTag n s"
  by (induction s) auto

lemma noTag_sublist: "noTag n s \<Longrightarrow> \<not> sublist (CHR ''<'' # n) s"
  by (induction s) (auto simp: sublist_Cons_right)

lemma entity_no_lt: "CHR ''<'' \<notin> set (entity c)"
  by (simp add: entity_def)

lemma escapeXml_no_lt: "CHR ''<'' \<notin> set (escapeXml s)"
  by (simp add: escapeXml_refines escapeXml_spec_def entity_no_lt)

lemma digit_no_lt: "d < 10 \<Longrightarrow> digit d \<noteq> CHR ''<''"
proof -
  assume "d < 10"
  then have "d \<in> {0, 1, 2, 3, 4, 5, 6, 7, 8, 9}" by auto
  then show ?thesis unfolding digit_def by (elim insertE emptyE; simp)
qed

lemma decimal_no_lt: "CHR ''<'' \<notin> set (decimal n)"
proof (induction n rule: decimal.induct)
  case (1 n)
  show ?case
  proof (cases "n < 10")
    case True
    then show ?thesis using digit_no_lt [of n] by (simp add: decimal.simps [of n])
  next
    case False
    moreover have "digit (n mod 10) \<noteq> CHR ''<''" by (rule digit_no_lt) simp
    ultimately show ?thesis using 1 by (simp add: decimal.simps [of n])
  qed
qed

lemma numberToString_no_lt: "CHR ''<'' \<notin> set (numberToString x)"
  by (simp add: numberToString_def decimal_no_lt)

lemma noTag_escapeXml: "noTag n (escapeXml s)"
  by (rule noTag_plain [OF escapeXml_no_lt])

lemma noTag_decimal: "noTag n (decimal k)"
  by (rule noTag_plain [OF decimal_no_lt])

lemma noTag_numberToString: "noTag n (numberToString x)"
  by (rule noTag_plain [OF numberToString_no_lt])

lemmas noTag_dynamic = noTag_escapeXml noTag_decimal noTag_numberToString

lemma freeResponse_no_respcondition: "noTag ''respcondition'' (freeResponseItem index q)"
  unfolding freeResponseItem_def Let_def
  by (intro noTag_append noTag_dynamic; code_simp)

lemma freeResponse_no_response_lid: "noTag ''response_lid'' (freeResponseItem index q)"
  unfolding freeResponseItem_def Let_def
  by (intro noTag_append noTag_dynamic; code_simp)

lemma responseLabel_no_respcondition: "noTag ''respcondition'' (responseLabel i a)"
  unfolding responseLabel_def
  by (intro noTag_append noTag_dynamic; code_simp)

lemma find_None_correct:
  "find (\<lambda>a. answer_correct a) answers = None \<longleftrightarrow> (\<forall>a \<in> set answers. \<not> answer_correct a)"
  by (induction answers) auto

lemma multipleChoice_no_respcondition:
  assumes "\<forall>a \<in> set answers. \<not> answer_correct a"
  shows "noTag ''respcondition'' (multipleChoiceItem index q answers)"
proof -
  have f: "find (\<lambda>a. answer_correct a) answers = None"
    using assms by (simp add: find_None_correct)
  have l: "noTag ''respcondition''
             (concat (map (\<lambda>(aIndex, a). responseLabel aIndex a) (enumerate 0 answers)))"
    by (rule noTag_concat) (auto simp: responseLabel_no_respcondition)
  have e: "noTag ''respcondition'' []" by simp
  show ?thesis
    unfolding multipleChoiceItem_def Let_def f option.case join_empty
    by (intro noTag_append noTag_dynamic l e; code_simp)
qed

lemma questionItem_no_respcondition:
  assumes "case question_answers q of None \<Rightarrow> True | Some answers \<Rightarrow> \<forall>a \<in> set answers. \<not> answer_correct a"
  shows "\<not> sublist ''<respcondition'' (questionItem index q)"
proof -
  have "noTag ''respcondition'' (questionItem index q)"
    using assms multipleChoice_no_respcondition freeResponse_no_respcondition
    by (auto simp: questionItem_def split: option.splits)
  from noTag_sublist [OF this] show ?thesis by simp
qed

lemma freeResponse_decvar:
  \<open>sublist (''<decvar maxvalue="'' @ numberToString (question_points q)
              @ ''" minvalue="0" varname="SCORE" vartype="Decimal"/>'') (freeResponseItem index q)\<close>
  unfolding freeResponseItem_def Let_def
  apply (rule sublist_skip)
  apply (rule sublist_skip)
  apply (rule sublist_skip)
  apply (rule sublist_skip)
  apply (rule sublist_skip)
  apply (rule sublist_skip)
  apply (rule sublist_mid)
  by code_simp+

lemma multipleChoice_decvar:
  \<open>sublist (''<decvar maxvalue="'' @ numberToString (question_points q)
              @ ''" minvalue="0" varname="SCORE" vartype="Decimal"/>'')
     (multipleChoiceItem index q answers)\<close>
  unfolding multipleChoiceItem_def Let_def
  apply (rule sublist_skip)
  apply (rule sublist_skip)
  apply (rule sublist_skip)
  apply (rule sublist_skip)
  apply (rule sublist_skip)
  apply (rule sublist_skip)
  apply (rule sublist_skip)
  apply (rule sublist_skip)
  apply (rule sublist_mid')
  by code_simp+

lemma questionItem_decvar:
  \<open>sublist (''<decvar maxvalue="'' @ numberToString (question_points q)
              @ ''" minvalue="0" varname="SCORE" vartype="Decimal"/>'') (questionItem index q)\<close>
  using freeResponse_decvar multipleChoice_decvar
  by (simp add: questionItem_def split: option.splits)

lemma respcondition_AB:
  \<open>sublist
     ''<respcondition continue="No">\<newline>          <conditionvar>\<newline>            <varequal respident="response1">ans_1</varequal>\<newline>          </conditionvar>\<newline>          <setvar action="Set" varname="SCORE">10</setvar>\<newline>        </respcondition>''
     (respcondition [\<lparr>answer_text = ''A'', answer_correct = False\<rparr>, \<lparr>answer_text = ''B'', answer_correct = True\<rparr>]
        \<lparr>answer_text = ''B'', answer_correct = True\<rparr> 10)\<close>
  by code_simp

lemma multipleChoice_AB:
  \<open>sublist
     ''<respcondition continue="No">\<newline>          <conditionvar>\<newline>            <varequal respident="response1">ans_1</varequal>\<newline>          </conditionvar>\<newline>          <setvar action="Set" varname="SCORE">10</setvar>\<newline>        </respcondition>''
     (multipleChoiceItem index
        \<lparr>question_type = ty, question_text = t, question_points = 10, question_answers = ans\<rparr>
        [\<lparr>answer_text = ''A'', answer_correct = False\<rparr>, \<lparr>answer_text = ''B'', answer_correct = True\<rparr>])\<close>
proof -
  have f: "find (\<lambda>a. answer_correct a) [\<lparr>answer_text = ''A'', answer_correct = False\<rparr>, \<lparr>answer_text = ''B'', answer_correct = True\<rparr>] = Some \<lparr>answer_text = ''B'', answer_correct = True\<rparr>"
    by simp
  show ?thesis
    unfolding multipleChoiceItem_def Let_def f option.case Question.simps
    apply (rule sublist_skip)
    apply (rule sublist_skip)
    apply (rule sublist_skip)
    apply (rule sublist_skip)
    apply (rule sublist_skip)
    apply (rule sublist_skip)
    apply (rule sublist_skip)
    apply (rule sublist_skip)
    apply (rule sublist_skip)
    apply (rule sublist_skip)
    apply (rule sublist_skip)
    apply (rule sublist_keep)
    by (rule respcondition_AB)
qed

lemma nth_enumerate_map:
  "i < length xs \<Longrightarrow> f i (xs ! i) \<in> set (map (\<lambda>(k, x). f k x) (enumerate 0 xs))"
proof -
  assume i: "i < length xs"
  then have "(i, xs ! i) \<in> set (enumerate 0 xs)"
    by (simp add: in_set_enumerate_eq)
  then show ?thesis by force
qed

lemma quiz_contains_question:
  assumes "item_questions item = Some qs" and "i < length qs"
  shows "sublist (questionItem i (qs ! i)) (generateQuizQti item)"
  unfolding generateQuizQti_def Let_def join_empty assms(1) option.case
  apply (rule sublist_skip)
  apply (rule sublist_skip)
  apply (rule sublist_skip)
  apply (rule sublist_skip)
  apply (rule sublist_skip)
  apply (rule sublist_keep)
  apply (rule sublist_concat)
  by (rule nth_enumerate_map [OF assms(2)])

lemma freeResponse_fib:
  \<open>sublist
     ''<response_str ident="response1" rcardinality="Single">\<newline>          <render_fib>\<newline>            <response_label ident="answer1" rshuffle="No"/>\<newline>          </render_fib>\<newline>        </response_str>''
     (freeResponseItem index q)\<close>
  unfolding freeResponseItem_def Let_def
  apply (rule sublist_skip)
  apply (rule sublist_skip)
  apply (rule sublist_skip)
  apply (rule sublist_skip)
  apply (rule sublist_skip)
  apply (rule sublist_skip)
  apply (rule sublist_keep)
  by code_simp

lemma freeResponse_type_answers:
  "freeResponseItem index (q\<lparr>question_type := ty, question_answers := ans\<rparr>) = freeResponseItem index q"
  by (simp add: freeResponseItem_def)

lemma responseLabel_no_response_lid: "noTag ''response_lid'' (responseLabel i a)"
  unfolding responseLabel_def
  by (intro noTag_append noTag_dynamic; code_simp)

lemma multipleChoice_has_response_lid:
  "sublist ''<response_lid'' (multipleChoiceItem index q answers)"
  unfolding multipleChoiceItem_def Let_def
  apply (rule sublist_skip)
  apply (rule sublist_skip)
  apply (rule sublist_skip)
  apply (rule sublist_skip)
  apply (rule sublist_skip)
  apply (rule sublist_skip)
  apply (rule sublist_keep)
  by code_simp

lemma multipleChoice_has_respcondition:
  assumes "a \<in> set answers" and "answer_correct a"
  shows "sublist ''<respcondition'' (multipleChoiceItem index q answers)"
proof -
  from assms have "find (\<lambda>a. answer_correct a) answers \<noteq> None"
    by (auto simp: find_None_correct)
  then obtain c where f: "find (\<lambda>a. answer_correct a) answers = Some c" by auto
  have "sublist ''<respcondition'' (respcondition answers c (question_points q))"
    unfolding respcondition_def
    apply (rule sublist_keep)
    by code_simp
  then show ?thesis
    unfolding multipleChoiceItem_def Let_def f option.case
    apply -
    apply (rule sublist_skip)
    apply (rule sublist_skip)
    apply (rule sublist_skip)
    apply (rule sublist_skip)
    apply (rule sublist_skip)
    apply (rule sublist_skip)
    apply (rule sublist_skip)
    apply (rule sublist_skip)
    apply (rule sublist_skip)
    apply (rule sublist_skip)
    apply (rule sublist_skip)
    apply (rule sublist_keep)
    by assumption
qed

lemma questionItem_respcondition_iff:
  "sublist ''<respcondition'' (questionItem index q) \<longleftrightarrow> hasCorrectChoice q"
proof (cases "hasCorrectChoice q")
  case True
  then show ?thesis
    using multipleChoice_has_respcondition
    by (auto simp: hasCorrectChoice_def questionItem_def split: option.splits)
next
  case False
  then have "noTag ''respcondition'' (questionItem index q)"
    using multipleChoice_no_respcondition freeResponse_no_respcondition
    by (auto simp: hasCorrectChoice_def questionItem_def split: option.splits)
  from noTag_sublist [OF this] False show ?thesis by simp
qed

lemma questionItem_noTag_respcondition:
  "\<not> hasCorrectChoice q \<Longrightarrow> noTag ''respcondition'' (questionItem index q)"
  using multipleChoice_no_respcondition freeResponse_no_respcondition
  by (auto simp: hasCorrectChoice_def questionItem_def split: option.splits)

lemma questionItem_noTag_response_lid:
  "\<not> hasChoices q \<Longrightarrow> noTag ''response_lid'' (questionItem index q)"
  using freeResponse_no_response_lid
  by (auto simp: hasChoices_def questionItem_def split: option.splits)

lemma questionItem_has_response_lid:
  "hasChoices q \<Longrightarrow> sublist ''<response_lid'' (questionItem index q)"
  using multipleChoice_has_response_lid
  by (auto simp: hasChoices_def questionItem_def split: option.splits)

lemma questions_noTag:
  assumes "\<And>i q. q \<in> set qs \<Longrightarrow> noTag n (questionItem i q)"
  shows "noTag n (concat (map (\<lambda>(index, q). questionItem index q) (enumerate 0 qs)))"
proof (rule noTag_concat)
  fix x assume "x \<in> set (map (\<lambda>(index, q). questionItem index q) (enumerate 0 qs))"
  then obtain i q where "x = questionItem i q" "(i, q) \<in> set (enumerate 0 qs)" by auto
  then show "noTag n x" using assms by (auto simp: in_set_enumerate_eq)
qed

lemma quiz_noTag_respcondition:
  assumes "CHR ''<'' \<notin> set (item_id item)"
    and "\<And>q. q \<in> set (case item_questions item of Some qs \<Rightarrow> qs | None \<Rightarrow> []) \<Longrightarrow> \<not> hasCorrectChoice q"
  shows "noTag ''respcondition'' (generateQuizQti item)"
proof -
  have c: "noTag ''respcondition''
        (concat (map (\<lambda>(index, q). questionItem index q)
           (enumerate 0 (case item_questions item of Some qs \<Rightarrow> qs | None \<Rightarrow> []))))"
    by (rule questions_noTag) (simp add: assms(2) questionItem_noTag_respcondition)
  show ?thesis
    unfolding generateQuizQti_def Let_def join_empty
    by (intro noTag_append noTag_dynamic noTag_plain [OF assms(1)] c; code_simp)
qed

lemma quiz_noTag_response_lid:
  assumes "CHR ''<'' \<notin> set (item_id item)"
    and "\<And>q. q \<in> set (case item_questions item of Some qs \<Rightarrow> qs | None \<Rightarrow> []) \<Longrightarrow> \<not> hasChoices q"
  shows "noTag ''response_lid'' (generateQuizQti item)"
proof -
  have c: "noTag ''response_lid''
        (concat (map (\<lambda>(index, q). questionItem index q)
           (enumerate 0 (case item_questions item of Some qs \<Rightarrow> qs | None \<Rightarrow> []))))"
    by (rule questions_noTag) (simp add: assms(2) questionItem_noTag_response_lid)
  show ?thesis
    unfolding generateQuizQti_def Let_def join_empty
    by (intro noTag_append noTag_dynamic noTag_plain [OF assms(1)] c; code_simp)
qed

lemma quiz_respcondition_iff:
  assumes "CHR ''<'' \<notin> set (item_id item)" and "item_questions item = Some qs"
  shows "sublist ''<respcondition'' (generateQuizQti item) \<longleftrightarrow> (\<exists>q \<in> set qs. hasCorrectChoice q)"
proof
  assume s: "sublist ''<respcondition'' (generateQuizQti item)"
  show "\<exists>q \<in> set qs. hasCorrectChoice q"
  proof (rule ccontr)
    assume "\<not> (\<exists>q \<in> set qs. hasCorrectChoice q)"
    then have "noTag ''respcondition'' (generateQuizQti item)"
      using quiz_noTag_respcondition [OF assms(1)] assms(2) by simp
    from noTag_sublist [OF this] s show False by simp
  qed
next
  assume "\<exists>q \<in> set qs. hasCorrectChoice q"
  then obtain i where i: "i < length qs" "hasCorrectChoice (qs ! i)"
    by (auto simp: in_set_conv_nth)
  then have "sublist ''<respcondition'' (questionItem i (qs ! i))"
    by (simp add: questionItem_respcondition_iff)
  with quiz_contains_question [OF assms(2) i(1)]
  show "sublist ''<respcondition'' (generateQuizQti item)"
    using sublist_order.order_trans by blast
qed

lemma quiz_response_lid_iff:
  assumes "CHR ''<'' \<notin> set (item_id item)" and "item_questions item = Some qs"
  shows "sublist ''<response_lid'' (generateQuizQti item) \<longleftrightarrow> (\<exists>q \<in> set qs. hasChoices q)"
proof
  assume s: "sublist ''<response_lid'' (generateQuizQti item)"
  show "\<exists>q \<in> set qs. hasChoices q"
  proof (rule ccontr)
    assume "\<not> (\<exists>q \<in> set qs. hasChoices q)"
    then have "noTag ''response_lid'' (generateQuizQti item)"
      using quiz_noTag_response_lid [OF assms(1)] assms(2) by simp
    from noTag_sublist [OF this] s show False by simp
  qed
next
  assume "\<exists>q \<in> set qs. hasChoices q"
  then obtain i where i: "i < length qs" "hasChoices (qs ! i)"
    by (auto simp: in_set_conv_nth)
  then have "sublist ''<response_lid'' (questionItem i (qs ! i))"
    by (simp add: questionItem_has_response_lid)
  with quiz_contains_question [OF assms(2) i(1)]
  show "sublist ''<response_lid'' (generateQuizQti item)"
    using sublist_order.order_trans by blast
qed

lemma quiz_same_questions:
  assumes "item_questions item = Some qs" and "i < length qs"
    and "questionItem i q' = questionItem i (qs ! i)"
  shows "generateQuizQti (item\<lparr>item_questions := Some (qs[i := q'])\<rparr>) = generateQuizQti item"
proof -
  have "map (\<lambda>(index, q). questionItem index q) (enumerate 0 (qs[i := q']))
          = map (\<lambda>(index, q). questionItem index q) (enumerate 0 qs)"
  proof (rule nth_equalityI)
    show "length (map (\<lambda>(index, q). questionItem index q) (enumerate 0 (qs[i := q'])))
            = length (map (\<lambda>(index, q). questionItem index q) (enumerate 0 qs))"
      by simp
  next
    fix k assume "k < length (map (\<lambda>(index, q). questionItem index q) (enumerate 0 (qs[i := q'])))"
    then have k: "k < length qs" by simp
    then show "map (\<lambda>(index, q). questionItem index q) (enumerate 0 (qs[i := q'])) ! k
            = map (\<lambda>(index, q). questionItem index q) (enumerate 0 qs) ! k"
      using assms(3) by (cases "k = i") (simp_all add: nth_enumerate_eq)
  qed
  then show ?thesis
    by (simp add: generateQuizQti_def assms(1))
qed

lemma quiz_respcondition_AB:
  assumes \<open>item_questions item = Some qs\<close> and \<open>i < length qs\<close>
    and \<open>qs ! i = \<lparr>question_type = ''multiple_choice'', question_text = t, question_points = 10,
                   question_answers = Some [\<lparr>answer_text = ''A'', answer_correct = False\<rparr>,
                                            \<lparr>answer_text = ''B'', answer_correct = True\<rparr>]\<rparr>\<close>
  shows \<open>sublist
            ''<respcondition continue="No">\<newline>          <conditionvar>\<newline>            <varequal respident="response1">ans_1</varequal>\<newline>          </conditionvar>\<newline>          <setvar action="Set" varname="SCORE">10</setvar>\<newline>        </respcondition>''
            (generateQuizQti item)\<close>
proof -
  have "sublist (questionItem i (qs ! i)) (generateQuizQti item)"
    using quiz_contains_question [OF assms(1,2)] .
  moreover have \<open>sublist
            ''<respcondition continue="No">\<newline>          <conditionvar>\<newline>            <varequal respident="response1">ans_1</varequal>\<newline>          </conditionvar>\<newline>          <setvar action="Set" varname="SCORE">10</setvar>\<newline>        </respcondition>''
            (questionItem i (qs ! i))\<close>
    using assms(3) multipleChoice_AB by (simp add: questionItem_def)
  ultimately show ?thesis
    using sublist_order.order_trans by blast
qed

lemma quiz_decvar:
  assumes "item_questions item = Some qs" and "i < length qs"
  shows \<open>sublist (''<decvar maxvalue="'' @ numberToString (question_points (qs ! i))
                    @ ''" minvalue="0" varname="SCORE" vartype="Decimal"/>'') (generateQuizQti item)\<close>
  using questionItem_decvar [of "qs ! i" i] quiz_contains_question [OF assms]
    sublist_order.order_trans by blast

lemma noCorrect_hasCorrectChoice:
  "(case question_answers q of None \<Rightarrow> True | Some answers \<Rightarrow> \<forall>a \<in> set answers. \<not> answer_correct a)
     \<Longrightarrow> \<not> hasCorrectChoice q"
  by (auto simp: hasCorrectChoice_def split: option.splits)

lemma freeResponse_for_absent_answers:
  assumes "question_answers q = None"
  shows "questionItem index q = freeResponseItem index q"
    and "ty \<noteq> ''multiple_choice'' \<Longrightarrow>
           questionItem index (q\<lparr>question_type := ty, question_answers := ans\<rparr>)
             = questionItem index q"
proof -
  show f: "questionItem index q = freeResponseItem index q"
    using assms by (simp add: questionItem_def)
  show "questionItem index (q\<lparr>question_type := ty, question_answers := ans\<rparr>) = questionItem index q"
    if "ty \<noteq> ''multiple_choice''"
    using that f by (cases ans) (simp_all add: questionItem_def freeResponse_type_answers)
qed

text \<open>
  C3. In the QTI document of a quiz item, a multiple-choice question with the answers A (not
  correct) and B (correct) and 10 points is rendered with a \<open><respcondition>\<close> whose
  \<open><varequal>\<close> is \<open>ans_1\<close>, the zero-based index of B, and whose \<open><setvar>\<close> sets \<open>SCORE\<close> to
  10. A question with no answer marked correct is rendered with the \<open><decvar>\<close> declaration
  and without any \<open><respcondition>\<close>; the document holds the rendering of each of its
  questions, and with it the \<open><decvar>\<close> declaration of each. The document (of an item whose
  id has no \<open><\<close>, the id being written as it is) holds a \<open><respcondition>\<close> exactly when
  one of its questions is a multiple-choice question with an answer marked correct; so a
  quiz whose questions have no answer marked correct has none.
\<close>

theorem qti_respcondition:
  \<open>(item_questions item = Some qs \<and> i < length qs
      \<and> qs ! i = \<lparr>question_type = ''multiple_choice'', question_text = t, question_points = 10,
                   question_answers = Some [\<lparr>answer_text = ''A'', answer_correct = False\<rparr>,
                                            \<lparr>answer_text = ''B'', answer_correct = True\<rparr>]\<rparr>
      \<longrightarrow> sublist
            ''<respcondition continue="No">\<newline>          <conditionvar>\<newline>            <varequal respident="response1">ans_1</varequal>\<newline>          </conditionvar>\<newline>          <setvar action="Set" varname="SCORE">10</setvar>\<newline>        </respcondition>''
            (generateQuizQti item))
    \<and> ((case question_answers q of
           None \<Rightarrow> True
         | Some answers \<Rightarrow> \<forall>a \<in> set answers. \<not> answer_correct a)
        \<longrightarrow> sublist (''<decvar maxvalue="'' @ numberToString (question_points q)
                      @ ''" minvalue="0" varname="SCORE" vartype="Decimal"/>'') (questionItem index q)
            \<and> \<not> sublist ''<respcondition'' (questionItem index q))
    \<and> (item_questions item = Some qs \<and> i < length qs
        \<longrightarrow> sublist (questionItem i (qs ! i)) (generateQuizQti item)
            \<and> sublist (''<decvar maxvalue="'' @ numberToString (question_points (qs ! i))
                          @ ''" minvalue="0" varname="SCORE" vartype="Decimal"/>'')
                  (generateQuizQti item))
    \<and> (item_questions item = Some qs \<and> CHR ''<'' \<notin> set (item_id item)
        \<longrightarrow> (sublist ''<respcondition'' (generateQuizQti item)
               \<longleftrightarrow> (\<exists>q' \<in> set qs. hasCorrectChoice q')))
    \<and> (item_questions item = Some qs \<and> CHR ''<'' \<notin> set (item_id item)
        \<and> (\<forall>q' \<in> set qs. case question_answers q' of
                               None \<Rightarrow> True
                             | Some answers \<Rightarrow> \<forall>a \<in> set answers. \<not> answer_correct a)
        \<longrightarrow> \<not> sublist ''<respcondition'' (generateQuizQti item))\<close>
proof (intro conjI impI)
  show \<open>sublist
            ''<respcondition continue="No">\<newline>          <conditionvar>\<newline>            <varequal respident="response1">ans_1</varequal>\<newline>          </conditionvar>\<newline>          <setvar action="Set" varname="SCORE">10</setvar>\<newline>        </respcondition>''
            (generateQuizQti item)\<close>
    if \<open>item_questions item = Some qs \<and> i < length qs
      \<and> qs ! i = \<lparr>question_type = ''multiple_choice'', question_text = t, question_points = 10,
                   question_answers = Some [\<lparr>answer_text = ''A'', answer_correct = False\<rparr>,
                                            \<lparr>answer_text = ''B'', answer_correct = True\<rparr>]\<rparr>\<close>
    using that quiz_respcondition_AB by blast
  show \<open>sublist (''<decvar maxvalue="'' @ numberToString (question_points q)
                      @ ''" minvalue="0" varname="SCORE" vartype="Decimal"/>'') (questionItem index q)\<close>
    by (rule questionItem_decvar)
  show \<open>\<not> sublist ''<respcondition'' (questionItem index q)\<close>
    if "case question_answers q of None \<Rightarrow> True
         | Some answers \<Rightarrow> \<forall>a \<in> set answers. \<not> answer_correct a"
    using that by (rule questionItem_no_respcondition)
  show "sublist (questionItem i (qs ! i)) (generateQuizQti item)"
    if "item_questions item = Some qs \<and> i < length qs"
    using that quiz_contains_question by blast
  show \<open>sublist (''<decvar maxvalue="'' @ numberToString (question_points (qs ! i))
                          @ ''" minvalue="0" varname="SCORE" vartype="Decimal"/>'')
                  (generateQuizQti item)\<close>
    if "item_questions item = Some qs \<and> i < length qs"
    using that quiz_decvar by blast
  show "sublist ''<respcondition'' (generateQuizQti item)
               \<longleftrightarrow> (\<exists>q' \<in> set qs. hasCorrectChoice q')"
    if "item_questions item = Some qs \<and> CHR ''<'' \<notin> set (item_id item)"
    using that quiz_respcondition_iff by blast
  show "\<not> sublist ''<respcondition'' (generateQuizQti item)"
    if a: "item_questions item = Some qs \<and> CHR ''<'' \<notin> set (item_id item)
        \<and> (\<forall>q' \<in> set qs. case question_answers q' of
                               None \<Rightarrow> True
                             | Some answers \<Rightarrow> \<forall>a \<in> set answers. \<not> answer_correct a)"
  proof -
    from a have "\<not> (\<exists>q' \<in> set qs. hasCorrectChoice q')"
      using noCorrect_hasCorrectChoice by blast
    with a quiz_respcondition_iff show ?thesis by blast
  qed
qed

theorem qti_respcondition_witness:
  \<open>sublist
      ''<varequal respident="response1">ans_1</varequal>\<newline>          </conditionvar>\<newline>          <setvar action="Set" varname="SCORE">10</setvar>''
      (generateQuizQti (exampleQuiz\<lparr>item_questions := Some exampleQuestions\<rparr>))
    \<and> sublist ''<respcondition'' (generateQuizQti (exampleQuiz\<lparr>item_questions := Some exampleQuestions\<rparr>))
    \<and> sublist ''<decvar maxvalue="5" minvalue="0" varname="SCORE" vartype="Decimal"/>''
         (generateQuizQti exampleOpenQuiz)
    \<and> \<not> sublist ''<respcondition'' (generateQuizQti exampleOpenQuiz)\<close>
proof -
  let ?full = "exampleQuiz\<lparr>item_questions := Some exampleQuestions\<rparr>"
  let ?open = "[exampleQuestions ! 0, exampleQuestions ! 2]"
  have q: \<open>item_questions ?full = Some exampleQuestions
      \<and> 1 < length exampleQuestions
      \<and> exampleQuestions ! 1 = \<lparr>question_type = ''multiple_choice'', question_text = ''A or B?'', question_points = 10,
                   question_answers = Some [\<lparr>answer_text = ''A'', answer_correct = False\<rparr>,
                                            \<lparr>answer_text = ''B'', answer_correct = True\<rparr>]\<rparr>\<close>
    by (simp add: exampleQuestions_def)
  have id: "CHR ''<'' \<notin> set (item_id ?full)" "CHR ''<'' \<notin> set (item_id exampleOpenQuiz)"
    by (simp_all add: exampleQuiz_def exampleOpenQuiz_def)
  have h: "\<exists>q' \<in> set exampleQuestions. hasCorrectChoice q'"
    by (simp add: exampleQuestions_def hasCorrectChoice_def)
  have o: "item_questions exampleOpenQuiz = Some ?open" "0 < length ?open"
    by (simp_all add: exampleOpenQuiz_def)
  have n: "\<forall>q' \<in> set ?open. case question_answers q' of
                               None \<Rightarrow> True
                             | Some answers \<Rightarrow> \<forall>a \<in> set answers. \<not> answer_correct a"
    by (simp add: exampleQuestions_def)
  have p: \<open>numberToString (question_points (?open ! 0)) = ''5''\<close>
    by (simp add: exampleQuestions_def numberToString_def decimal.simps digit_def)
  have s: \<open>sublist
      ''<varequal respident="response1">ans_1</varequal>\<newline>          </conditionvar>\<newline>          <setvar action="Set" varname="SCORE">10</setvar>''
      ''<respcondition continue="No">\<newline>          <conditionvar>\<newline>            <varequal respident="response1">ans_1</varequal>\<newline>          </conditionvar>\<newline>          <setvar action="Set" varname="SCORE">10</setvar>\<newline>        </respcondition>''\<close>
    by code_simp
  from qti_respcondition [of ?full exampleQuestions 1 "''A or B?''" "exampleQuestions ! 0" 0] q id(1) h
  have 1: \<open>sublist
            ''<respcondition continue="No">\<newline>          <conditionvar>\<newline>            <varequal respident="response1">ans_1</varequal>\<newline>          </conditionvar>\<newline>          <setvar action="Set" varname="SCORE">10</setvar>\<newline>        </respcondition>''
            (generateQuizQti ?full)\<close>
    and 2: \<open>sublist ''<respcondition'' (generateQuizQti ?full)\<close>
    by blast+
  from qti_respcondition [of exampleOpenQuiz ?open 0 "[]" "exampleQuestions ! 0" 0] o id(2) n
  have 3: \<open>sublist (''<decvar maxvalue="'' @ numberToString (question_points (?open ! 0))
                          @ ''" minvalue="0" varname="SCORE" vartype="Decimal"/>'')
                  (generateQuizQti exampleOpenQuiz)\<close>
    and 4: \<open>\<not> sublist ''<respcondition'' (generateQuizQti exampleOpenQuiz)\<close>
    by blast+
  from 1 s have \<open>sublist
      ''<varequal respident="response1">ans_1</varequal>\<newline>          </conditionvar>\<newline>          <setvar action="Set" varname="SCORE">10</setvar>''
      (generateQuizQti ?full)\<close>
    using sublist_order.order_trans by blast
  moreover from 3 p have \<open>sublist ''<decvar maxvalue="5" minvalue="0" varname="SCORE" vartype="Decimal"/>''
         (generateQuizQti exampleOpenQuiz)\<close>
    by simp
  ultimately show ?thesis using 2 4 by blast
qed

text \<open>
  C10. A question of type \<open>multiple_choice\<close> whose \<open>answers\<close> are absent is rendered exactly
  as the same question of type \<open>short_answer\<close> or \<open>essay\<close>: the fill-in-blank \<open><response_str>\<close> with
  \<open><render_fib>\<close>, the \<open><decvar>\<close> declaration, no \<open><response_lid>\<close> and no
  \<open><respcondition>\<close>. The QTI document of a quiz item that has this question holds this
  rendering, and is the same document when the type of the question is changed to
  \<open>short_answer\<close> or \<open>essay\<close>. The document (of an item whose id has no \<open><\<close>) holds a
  \<open><response_lid>\<close> exactly when one of its questions is a multiple-choice question with
  answers, a \<open><respcondition>\<close> exactly when one of them has an answer marked correct; the
  question without answers is neither.
\<close>

theorem multiple_choice_without_answers:
  assumes "question_type q = ''multiple_choice''" and "question_answers q = None"
  shows \<open>questionItem index q
            = questionItem index (q\<lparr>question_type := ''short_answer'', question_answers := ans\<rparr>)
       \<and> questionItem index q
            = questionItem index (q\<lparr>question_type := ''essay'', question_answers := ans\<rparr>)
       \<and> sublist
            ''<response_str ident="response1" rcardinality="Single">\<newline>          <render_fib>\<newline>            <response_label ident="answer1" rshuffle="No"/>\<newline>          </render_fib>\<newline>        </response_str>''
            (questionItem index q)
       \<and> sublist (''<decvar maxvalue="'' @ numberToString (question_points q)
                     @ ''" minvalue="0" varname="SCORE" vartype="Decimal"/>'') (questionItem index q)
       \<and> \<not> sublist ''<response_lid'' (questionItem index q)
       \<and> \<not> sublist ''<respcondition'' (questionItem index q)
       \<and> (item_questions item = Some qs \<and> i < length qs \<and> qs ! i = q \<longrightarrow>
            sublist (questionItem i q) (generateQuizQti item)
            \<and> sublist
                 ''<response_str ident="response1" rcardinality="Single">\<newline>          <render_fib>\<newline>            <response_label ident="answer1" rshuffle="No"/>\<newline>          </render_fib>\<newline>        </response_str>''
                 (generateQuizQti item)
            \<and> sublist (''<decvar maxvalue="'' @ numberToString (question_points q)
                          @ ''" minvalue="0" varname="SCORE" vartype="Decimal"/>'')
                 (generateQuizQti item)
            \<and> generateQuizQti item
                 = generateQuizQti (item\<lparr>item_questions :=
                     Some (qs[i := q\<lparr>question_type := ''short_answer'', question_answers := ans\<rparr>])\<rparr>)
            \<and> generateQuizQti item
                 = generateQuizQti (item\<lparr>item_questions :=
                     Some (qs[i := q\<lparr>question_type := ''essay'', question_answers := ans\<rparr>])\<rparr>))
       \<and> (item_questions item = Some qs \<and> CHR ''<'' \<notin> set (item_id item) \<longrightarrow>
            (sublist ''<response_lid'' (generateQuizQti item) \<longleftrightarrow> (\<exists>q' \<in> set qs. hasChoices q'))
            \<and> (sublist ''<respcondition'' (generateQuizQti item)
                 \<longleftrightarrow> (\<exists>q' \<in> set qs. hasCorrectChoice q')))
       \<and> \<not> hasChoices q \<and> \<not> hasCorrectChoice q\<close>
proof -
  note f = freeResponse_for_absent_answers [OF assms(2)]
  have 1: "questionItem index q
            = questionItem index (q\<lparr>question_type := ''short_answer'', question_answers := ans\<rparr>)"
    and 2: "questionItem index q
            = questionItem index (q\<lparr>question_type := ''essay'', question_answers := ans\<rparr>)"
    using f(2) [of "''short_answer''" index ans] f(2) [of "''essay''" index ans] by simp_all
  have 3: \<open>sublist
            ''<response_str ident="response1" rcardinality="Single">\<newline>          <render_fib>\<newline>            <response_label ident="answer1" rshuffle="No"/>\<newline>          </render_fib>\<newline>        </response_str>''
            (questionItem k q)\<close> for k
    using freeResponse_fib [of k q] f(1) [of k] by simp
  have 4: \<open>sublist (''<decvar maxvalue="'' @ numberToString (question_points q)
                     @ ''" minvalue="0" varname="SCORE" vartype="Decimal"/>'') (questionItem k q)\<close> for k
    by (rule questionItem_decvar)
  have 5: \<open>\<not> sublist ''<response_lid'' (questionItem index q)\<close>
    using noTag_sublist [OF freeResponse_no_response_lid [of index q]] f(1) [of index] by simp
  have 6: \<open>\<not> sublist ''<respcondition'' (questionItem index q)\<close>
    using noTag_sublist [OF freeResponse_no_respcondition [of index q]] f(1) [of index] by simp
  have 7: \<open>sublist (questionItem i q) (generateQuizQti item)
            \<and> sublist
                 ''<response_str ident="response1" rcardinality="Single">\<newline>          <render_fib>\<newline>            <response_label ident="answer1" rshuffle="No"/>\<newline>          </render_fib>\<newline>        </response_str>''
                 (generateQuizQti item)
            \<and> sublist (''<decvar maxvalue="'' @ numberToString (question_points q)
                          @ ''" minvalue="0" varname="SCORE" vartype="Decimal"/>'')
                 (generateQuizQti item)
            \<and> generateQuizQti item
                 = generateQuizQti (item\<lparr>item_questions :=
                     Some (qs[i := q\<lparr>question_type := ''short_answer'', question_answers := ans\<rparr>])\<rparr>)
            \<and> generateQuizQti item
                 = generateQuizQti (item\<lparr>item_questions :=
                     Some (qs[i := q\<lparr>question_type := ''essay'', question_answers := ans\<rparr>])\<rparr>)\<close>
    if a: "item_questions item = Some qs \<and> i < length qs \<and> qs ! i = q"
  proof -
    from a have c: "sublist (questionItem i q) (generateQuizQti item)"
      using quiz_contains_question by blast
    have s: "generateQuizQti item
                 = generateQuizQti (item\<lparr>item_questions :=
                     Some (qs[i := q\<lparr>question_type := ty, question_answers := ans\<rparr>])\<rparr>)"
      if "ty \<noteq> ''multiple_choice''" for ty
      using quiz_same_questions [of item qs i "q\<lparr>question_type := ty, question_answers := ans\<rparr>"]
        a f(2) [OF that, of i ans] by simp
    from c 3 [of i] 4 [of i] s [of "''short_answer''"] s [of "''essay''"] show ?thesis
      using sublist_order.order_trans by auto
  qed
  have 8: "(sublist ''<response_lid'' (generateQuizQti item) \<longleftrightarrow> (\<exists>q' \<in> set qs. hasChoices q'))
            \<and> (sublist ''<respcondition'' (generateQuizQti item)
                 \<longleftrightarrow> (\<exists>q' \<in> set qs. hasCorrectChoice q'))"
    if "item_questions item = Some qs \<and> CHR ''<'' \<notin> set (item_id item)"
    using that quiz_response_lid_iff quiz_respcondition_iff by blast
  have 9: "\<not> hasChoices q" "\<not> hasCorrectChoice q"
    using assms(2) by (simp_all add: hasChoices_def hasCorrectChoice_def)
  from 1 2 3 [of index] 4 [of index] 5 6 7 8 9 show ?thesis by blast
qed

theorem multiple_choice_without_answers_witness:
  \<open>question_type (exampleQuestions ! 2) = ''multiple_choice''
    \<and> question_answers (exampleQuestions ! 2) = None
    \<and> sublist ''<render_fib>'' (generateQuizQti exampleBareQuiz)
    \<and> \<not> sublist ''<response_lid'' (generateQuizQti exampleBareQuiz)
    \<and> \<not> sublist ''<respcondition'' (generateQuizQti exampleBareQuiz)
    \<and> generateQuizQti exampleBareQuiz
         = generateQuizQti
             (exampleQuiz\<lparr>item_questions :=
                Some [\<lparr>question_type = ''essay'', question_text = ''Which?'',
                        question_points = 2, question_answers = None\<rparr>]\<rparr>)\<close>
proof -
  have t: "question_type (exampleQuestions ! 2) = ''multiple_choice''"
    and a: "question_answers (exampleQuestions ! 2) = None"
    by (simp_all add: exampleQuestions_def)
  have q: "item_questions exampleBareQuiz = Some [exampleQuestions ! 2]
           \<and> 0 < length [exampleQuestions ! 2]
           \<and> [exampleQuestions ! 2] ! 0 = exampleQuestions ! 2"
    by (simp add: exampleBareQuiz_def)
  have id: "item_questions exampleBareQuiz = Some [exampleQuestions ! 2]
           \<and> CHR ''<'' \<notin> set (item_id exampleBareQuiz)"
    by (simp add: exampleBareQuiz_def exampleQuiz_def)
  have n: "\<not> (\<exists>q' \<in> set [exampleQuestions ! 2]. hasChoices q')"
    "\<not> (\<exists>q' \<in> set [exampleQuestions ! 2]. hasCorrectChoice q')"
    by (simp_all add: exampleQuestions_def hasChoices_def hasCorrectChoice_def)
  have e: \<open>exampleBareQuiz\<lparr>item_questions :=
              Some ([exampleQuestions ! 2]
                [0 := (exampleQuestions ! 2)\<lparr>question_type := ''essay'', question_answers := None\<rparr>])\<rparr>
             = exampleQuiz\<lparr>item_questions :=
                Some [\<lparr>question_type = ''essay'', question_text = ''Which?'',
                        question_points = 2, question_answers = None\<rparr>]\<rparr>\<close>
    by (simp add: exampleBareQuiz_def exampleQuestions_def)
  have s: \<open>sublist ''<render_fib>''
      ''<response_str ident="response1" rcardinality="Single">\<newline>          <render_fib>\<newline>            <response_label ident="answer1" rshuffle="No"/>\<newline>          </render_fib>\<newline>        </response_str>''\<close>
    by code_simp
  from multiple_choice_without_answers [OF t a,
      where item = exampleBareQuiz and qs = "[exampleQuestions ! 2]" and i = 0 and ans = None] q id n
  have \<open>sublist
          ''<response_str ident="response1" rcardinality="Single">\<newline>          <render_fib>\<newline>            <response_label ident="answer1" rshuffle="No"/>\<newline>          </render_fib>\<newline>        </response_str>''
          (generateQuizQti exampleBareQuiz)\<close>
    and \<open>\<not> sublist ''<response_lid'' (generateQuizQti exampleBareQuiz)\<close>
    and \<open>\<not> sublist ''<respcondition'' (generateQuizQti exampleBareQuiz)\<close>
    and \<open>generateQuizQti exampleBareQuiz
         = generateQuizQti (exampleBareQuiz\<lparr>item_questions :=
              Some ([exampleQuestions ! 2]
                [0 := (exampleQuestions ! 2)\<lparr>question_type := ''essay'', question_answers := None\<rparr>])\<rparr>)\<close>
    by blast+
  with s e t a show ?thesis
    using sublist_order.order_trans by auto
qed

section \<open>The archive\<close>

lemma exportItem_itemFile:
  "exportItem ''assignments/'' ''discussions/'' ''quizzes/'' z item
     = AList.update (fst (itemFile item)) (File (snd (itemFile item))) z"
  by (simp add: exportItem_def itemFile_def zip_file_def)

lemma foldl_modules:
  "foldl (\<lambda>z m. foldl g z (mod_items m)) z ms = foldl g z (concat (map mod_items ms))"
  by (induction ms arbitrary: z) simp_all

lemma exportToIMSCC_fold:
  "exportToIMSCC ov mid c =
     foldl (\<lambda>z item. AList.update (fst (itemFile item)) (File (snd (itemFile item))) z)
       (initialArchive ov mid c) (allItems c)"
proof -
  have "exportItem ''assignments/'' ''discussions/'' ''quizzes/''
          = (\<lambda>z item. AList.update (fst (itemFile item)) (File (snd (itemFile item))) z)"
    by (intro ext) (rule exportItem_itemFile)
  then show ?thesis
    by (simp add: exportToIMSCC_def zip_file_def zip_folder_def Let_def foldl_modules
          initialArchive_def allItems_def)
qed

lemma fold_update_lookup:
  "map_of (foldl (\<lambda>z x. AList.update (k x) (v x) z) z0 xs) p =
     (case find (\<lambda>x. k x = p) (rev xs) of Some x \<Rightarrow> Some (v x) | None \<Rightarrow> map_of z0 p)"
proof (induction xs rule: rev_induct)
  case Nil
  then show ?case by simp
next
  case (snoc x xs)
  then show ?case by (simp add: update_conv')
qed

lemma firstOccurrences_snoc:
  "firstOccurrences (xs @ [k]) = (if k \<in> set xs then firstOccurrences xs else firstOccurrences xs @ [k])"
  by (simp add: firstOccurrences_def)

lemma set_firstOccurrences: "set (firstOccurrences xs) = set xs"
  by (simp add: firstOccurrences_def)

lemma firstOccurrences_distinct: "distinct xs \<Longrightarrow> firstOccurrences xs = xs"
  by (simp add: firstOccurrences_def distinct_remdups_id)

lemma fold_update_keys:
  "distinct (map fst z0) \<Longrightarrow>
     map fst (foldl (\<lambda>z x. AList.update (k x) (v x) z) z0 xs)
       = firstOccurrences (map fst z0 @ map k xs)"
proof (induction xs rule: rev_induct)
  case Nil
  then show ?case by (simp add: firstOccurrences_distinct)
next
  case (snoc x xs)
  then have "map fst (foldl (\<lambda>z x. AList.update (k x) (v x) z) z0 xs)
       = firstOccurrences (map fst z0 @ map k xs)" by simp
  moreover have "k x \<in> set (firstOccurrences (map fst z0 @ map k xs))
       \<longleftrightarrow> k x \<in> set (map fst z0 @ map k xs)"
    by (simp only: set_firstOccurrences)
  ultimately show ?case
    using firstOccurrences_snoc [of "map fst z0 @ map k xs" "k x"]
    by (simp add: update_keys)
qed

lemma xml_not_html: "a @ ''.xml'' \<noteq> b @ ''.html''"
proof
  assume "a @ ''.xml'' = b @ ''.html''"
  then have "rev (a @ ''.xml'') = rev (b @ ''.html'')" by simp
  then show False by simp
qed

lemma itemFile_quiz_path:
  assumes "fst (itemFile it) = ''quizzes/'' @ x @ ''.xml''"
  shows "item_type it = ''quiz'' \<and> item_id it = x"
proof -
  have "item_id it @ ''.html'' \<noteq> (''quizzes/'' @ x) @ ''.xml''"
    using xml_not_html [of "''quizzes/'' @ x" "item_id it"] by metis
  with assms show ?thesis
    by (auto simp: itemFile_def split: if_splits)
qed

lemma last_writer:
  assumes "x \<in> set xs"
  shows "\<exists>y \<in> set xs. k y = k x \<and> find (\<lambda>y. k y = k x) (rev xs) = Some y"
proof -
  from assms have "find (\<lambda>y. k y = k x) (rev xs) \<noteq> None"
    by (auto simp: find_None_iff)
  then obtain y where y: "find (\<lambda>y. k y = k x) (rev xs) = Some y" by auto
  then obtain i where "i < length (rev xs)" "y = rev xs ! i" "k y = k x"
    by (auto simp: find_Some_iff)
  then have "y \<in> set xs" "k y = k x"
    using nth_mem [of i "rev xs"] by simp_all
  with y show ?thesis by blast
qed

lemma export_lookup:
  assumes "item \<in> set (allItems c)"
  shows "\<exists>item' \<in> set (allItems c). fst (itemFile item') = fst (itemFile item)
           \<and> map_of (exportToIMSCC ov mid c) (fst (itemFile item)) = Some (File (snd (itemFile item')))"
proof -
  from last_writer [OF assms, of "\<lambda>i. fst (itemFile i)"] obtain item' where
    i: "item' \<in> set (allItems c)" "fst (itemFile item') = fst (itemFile item)" and
    f: "find (\<lambda>y. fst (itemFile y) = fst (itemFile item)) (rev (allItems c)) = Some item'"
    by blast
  have "map_of (exportToIMSCC ov mid c) (fst (itemFile item)) = Some (File (snd (itemFile item')))"
    unfolding exportToIMSCC_fold
    using fold_update_lookup [of "\<lambda>i. fst (itemFile i)" "\<lambda>i. File (snd (itemFile i))"
        "initialArchive ov mid c" "allItems c" "fst (itemFile item)"] f
    by simp
  with i show ?thesis by blast
qed

lemma exportItem_lookup:
  "map_of (exportItem ''assignments/'' ''discussions/'' ''quizzes/'' z item) p
     = (if p = fst (itemFile item) then Some (File (snd (itemFile item))) else map_of z p)"
  by (simp add: exportItem_itemFile update_conv')

text \<open>
  C4. For an item of type \<open>quiz\<close> the exporter writes the file \<open>quizzes/{id}.xml\<close> with the
  QTI of the item and touches no other entry; that path is neither \<open>{id}.html\<close> nor under
  \<open>assignments/\<close> or \<open>discussions/\<close>; and in the archive of a course that holds the item,
  the entry \<open>quizzes/{id}.xml\<close> is the QTI of a quiz item with that id. For an item whose
  type is none of \<open>page\<close>, \<open>assignment\<close>, \<open>discussion\<close>, \<open>quiz\<close> the exporter writes the
  page \<open>{id}.html\<close> through the root handle and touches no other entry.
\<close>

theorem quiz_and_unknown_type_routing:
  "(item_type item = ''quiz'' \<longrightarrow>
      map_of (exportItem ''assignments/'' ''discussions/'' ''quizzes/'' z item)
          (''quizzes/'' @ item_id item @ ''.xml'') = Some (File (generateQuizQti item))
      \<and> (\<forall>p. p \<noteq> ''quizzes/'' @ item_id item @ ''.xml'' \<longrightarrow>
            map_of (exportItem ''assignments/'' ''discussions/'' ''quizzes/'' z item) p = map_of z p)
      \<and> ''quizzes/'' @ item_id item @ ''.xml'' \<noteq> item_id item @ ''.html''
      \<and> \<not> prefix ''assignments/'' (''quizzes/'' @ item_id item @ ''.xml'')
      \<and> \<not> prefix ''discussions/'' (''quizzes/'' @ item_id item @ ''.xml'')
      \<and> (item \<in> set (allItems c) \<longrightarrow>
           (\<exists>item' \<in> set (allItems c). item_type item' = ''quiz'' \<and> item_id item' = item_id item
              \<and> map_of (exportToIMSCC ov mid c) (''quizzes/'' @ item_id item @ ''.xml'')
                   = Some (File (generateQuizQti item')))))
   \<and> (item_type item \<notin> {''page'', ''assignment'', ''discussion'', ''quiz''} \<longrightarrow>
      map_of (exportItem ''assignments/'' ''discussions/'' ''quizzes/'' z item)
          (item_id item @ ''.html'')
        = Some (File (generatePageHtml (item_title item) (orElse (item_content item) '''')))
      \<and> (\<forall>p. p \<noteq> item_id item @ ''.html'' \<longrightarrow>
            map_of (exportItem ''assignments/'' ''discussions/'' ''quizzes/'' z item) p = map_of z p)
      \<and> (item \<in> set (allItems c) \<longrightarrow>
           (\<exists>body. map_of (exportToIMSCC ov mid c) (item_id item @ ''.html'') = Some (File body))))"
proof (intro conjI impI)
  assume q: "item_type item = ''quiz''"
  then have f: "itemFile item = (''quizzes/'' @ item_id item @ ''.xml'', generateQuizQti item)"
    by (simp add: itemFile_def)
  show "map_of (exportItem ''assignments/'' ''discussions/'' ''quizzes/'' z item)
          (''quizzes/'' @ item_id item @ ''.xml'') = Some (File (generateQuizQti item))"
    by (simp add: exportItem_lookup f)
  show "\<forall>p. p \<noteq> ''quizzes/'' @ item_id item @ ''.xml'' \<longrightarrow>
            map_of (exportItem ''assignments/'' ''discussions/'' ''quizzes/'' z item) p = map_of z p"
    by (simp add: exportItem_lookup f)
  show "''quizzes/'' @ item_id item @ ''.xml'' \<noteq> item_id item @ ''.html''"
    using xml_not_html [of "''quizzes/'' @ item_id item" "item_id item"] by simp
  show "\<not> prefix ''assignments/'' (''quizzes/'' @ item_id item @ ''.xml'')" by simp
  show "\<not> prefix ''discussions/'' (''quizzes/'' @ item_id item @ ''.xml'')" by simp
  show "\<exists>item' \<in> set (allItems c). item_type item' = ''quiz'' \<and> item_id item' = item_id item
              \<and> map_of (exportToIMSCC ov mid c) (''quizzes/'' @ item_id item @ ''.xml'')
                   = Some (File (generateQuizQti item'))"
    if "item \<in> set (allItems c)"
  proof -
    from export_lookup [OF that, of ov mid] f obtain item' where
      i: "item' \<in> set (allItems c)" "fst (itemFile item') = ''quizzes/'' @ item_id item @ ''.xml''"
      and m: "map_of (exportToIMSCC ov mid c) (''quizzes/'' @ item_id item @ ''.xml'')
                = Some (File (snd (itemFile item')))"
      by auto
    from itemFile_quiz_path [OF i(2)] have t: "item_type item' = ''quiz''" "item_id item' = item_id item"
      by simp_all
    then have "snd (itemFile item') = generateQuizQti item'" by (simp add: itemFile_def)
    with i(1) t m show ?thesis by auto
  qed
next
  assume u: "item_type item \<notin> {''page'', ''assignment'', ''discussion'', ''quiz''}"
  then have f: "itemFile item = (item_id item @ ''.html'',
      generatePageHtml (item_title item) (orElse (item_content item) ''''))"
    by (simp add: itemFile_def)
  show "map_of (exportItem ''assignments/'' ''discussions/'' ''quizzes/'' z item)
          (item_id item @ ''.html'')
        = Some (File (generatePageHtml (item_title item) (orElse (item_content item) '''')))"
    by (simp add: exportItem_lookup f)
  show "\<forall>p. p \<noteq> item_id item @ ''.html'' \<longrightarrow>
            map_of (exportItem ''assignments/'' ''discussions/'' ''quizzes/'' z item) p = map_of z p"
    by (simp add: exportItem_lookup f)
  show "\<exists>body. map_of (exportToIMSCC ov mid c) (item_id item @ ''.html'') = Some (File body)"
    if "item \<in> set (allItems c)"
    using export_lookup [OF that, of ov mid] f by auto
qed

lemma exampleQuiz_in_course: "exampleQuiz \<in> set (allItems exampleCourse)"
  by (simp add: allItems_def exampleCourse_def exampleModule_def)

theorem quiz_and_unknown_type_routing_witness:
  "item_type exampleQuiz = ''quiz'' \<and> exampleQuiz \<in> set (allItems exampleCourse)
   \<and> map_of (exportToIMSCC ''i1'' ''i2'' exampleCourse) ''quizzes/item-1-1.xml''
        = Some (File (generateQuizQti exampleQuiz))
   \<and> item_type (exampleQuiz\<lparr>item_type := ''video''\<rparr>)
        \<notin> {''page'', ''assignment'', ''discussion'', ''quiz''}
   \<and> map_of (exportItem ''assignments/'' ''discussions/'' ''quizzes/'' []
                (exampleQuiz\<lparr>item_type := ''video''\<rparr>)) ''item-1-1.html''
        = Some (File (generatePageHtml ''Q & A'' ''''))"
proof -
  have q: "item_type exampleQuiz = ''quiz''" and i: "item_id exampleQuiz = ''item-1-1''"
    by (simp_all add: exampleQuiz_def)
  have a: "allItems exampleCourse = [exampleQuiz]"
    by (simp add: allItems_def exampleCourse_def exampleModule_def)
  have v: "item_type (exampleQuiz\<lparr>item_type := ''video''\<rparr>)
        \<notin> {''page'', ''assignment'', ''discussion'', ''quiz''}"
    by simp
  have e: "item_id (exampleQuiz\<lparr>item_type := ''video''\<rparr>) = ''item-1-1''"
    "item_title (exampleQuiz\<lparr>item_type := ''video''\<rparr>) = ''Q & A''"
    "orElse (item_content (exampleQuiz\<lparr>item_type := ''video''\<rparr>)) '''' = ''''"
    by (simp_all add: exampleQuiz_def orElse_def)
  from quiz_and_unknown_type_routing [of exampleQuiz "[]" exampleCourse "''i1''" "''i2''"] q a i
  have 1: "map_of (exportToIMSCC ''i1'' ''i2'' exampleCourse) ''quizzes/item-1-1.xml''
        = Some (File (generateQuizQti exampleQuiz))"
    by auto
  from quiz_and_unknown_type_routing [of "exampleQuiz\<lparr>item_type := ''video''\<rparr>" "[]"
      exampleCourse "''i1''" "''i2''"] v e
  have 2: "map_of (exportItem ''assignments/'' ''discussions/'' ''quizzes/'' []
                (exampleQuiz\<lparr>item_type := ''video''\<rparr>)) ''item-1-1.html''
        = Some (File (generatePageHtml ''Q & A'' ''''))"
    by auto
  from q a v 1 2 show ?thesis by simp
qed

lemma itemResource_position: "itemResource (i\<lparr>item_position := x\<rparr>) = itemResource i"
  by (simp add: itemResource_def resourceTypeHref_def)

lemma itemEntry_position: "itemEntry (i\<lparr>item_position := x\<rparr>) = itemEntry i"
  by (simp add: itemEntry_def)

lemma itemFile_position: "itemFile (i\<lparr>item_position := x\<rparr>) = itemFile i"
  by (simp add: itemFile_def generateAssignmentHtml_def generateDiscussionHtml_def
        generateQuizQti_def)

lemma moduleOrg_position:
  "moduleOrg (m\<lparr>mod_position := x, mod_items := map (\<lambda>i. i\<lparr>item_position := g i\<rparr>) (mod_items m)\<rparr>)
     = moduleOrg m"
  by (simp add: moduleOrg_def moduleEntry_def itemEntry_position comp_def)

lemma allItems_reposition:
  "allItems (reposition f g c) = map (\<lambda>i. i\<lparr>item_position := g i\<rparr>) (allItems c)"
  by (simp add: allItems_def reposition_def map_concat comp_def)

lemma manifest_reposition:
  "generateManifest ov mid (reposition f g c) = generateManifest ov mid c"
proof -
  have "map (\<lambda>m. map itemResource (mod_items m)) (course_modules (reposition f g c))
          = map (\<lambda>m. map itemResource (mod_items m)) (course_modules c)"
    by (simp add: reposition_def comp_def itemResource_position)
  moreover have "map moduleOrg (course_modules (reposition f g c)) = map moduleOrg (course_modules c)"
    by (simp add: reposition_def comp_def moduleOrg_position)
  moreover have "course_title (reposition f g c) = course_title c"
    "course_description (reposition f g c) = course_description c"
    by (simp_all add: reposition_def)
  ultimately show ?thesis
    by (simp add: generateManifest_def modulesLoop_eq)
qed

lemma foldl_map': "foldl f z (map h xs) = foldl (\<lambda>z x. f z (h x)) z xs"
  by (induction xs arbitrary: z) simp_all

lemma export_reposition:
  "exportToIMSCC ov mid (reposition f g c) = exportToIMSCC ov mid c"
proof -
  have "initialArchive ov mid (reposition f g c) = initialArchive ov mid c"
    using manifest_reposition [of ov mid f g c]
    by (simp add: initialArchive_def) (simp add: reposition_def)
  then show ?thesis
    by (simp add: exportToIMSCC_fold allItems_reposition foldl_map' itemFile_position)
qed

lemma manifest_order:
  "\<exists>pre mid' post. generateManifest ov mid c =
      pre @ concat (map moduleOrg (course_modules c)) @ mid'
      @ concat (map itemResource (allItems c)) @ post"
proof -
  have "concat (concat (map (\<lambda>m. map itemResource (mod_items m)) (course_modules c)))
          = concat (map itemResource (allItems c))"
    by (simp add: allItems_def map_concat comp_def)
  then show ?thesis
    unfolding generateManifest_def modulesLoop_eq Let_def prod.case join_empty
    apply (simp only: concat_append concat.simps append_assoc append_Nil2)
    by (metis append.assoc)
qed

lemma moduleOrg_order:
  "\<exists>pre post. moduleOrg m = pre @ concat (map itemEntry (mod_items m)) @ post"
  unfolding moduleOrg_def moduleEntry_def Let_def join_empty
  by (metis append.assoc)

lemma archive_order:
  "map fst (exportToIMSCC ov mid c) =
     firstOccurrences
       ([''imsmanifest.xml'', ''course_overview.html'', ''assignments/'', ''discussions/'', ''quizzes/'']
        @ map (\<lambda>item. fst (itemFile item)) (allItems c))"
  unfolding exportToIMSCC_fold
  using fold_update_keys [of "initialArchive ov mid c" "\<lambda>i. fst (itemFile i)"
      "\<lambda>i. File (snd (itemFile i))" "allItems c"]
  by (simp add: initialArchive_def)

text \<open>
  C9, as the code has it. The manifest holds the organization entries of the modules in
  the order of the \<open>modules\<close> array, each with the entries of its items in the order of its
  \<open>items\<close> array, and the resources in the same order; the names of the archive are the
  manifest, the overview and the three folders followed by the paths of the items in that
  order (a path written twice keeps its first place). The \<open>position\<close> fields are not read:
  the manifest and the archive are the same whatever their values.
\<close>

theorem export_order_ignores_position:
  "(\<exists>pre mid' post. generateManifest ov mid c =
        pre @ concat (map moduleOrg (course_modules c)) @ mid'
        @ concat (map itemResource (allItems c)) @ post)
   \<and> (\<exists>pre post. moduleOrg m = pre @ concat (map itemEntry (mod_items m)) @ post)
   \<and> map fst (exportToIMSCC ov mid c) =
        firstOccurrences
          ([''imsmanifest.xml'', ''course_overview.html'', ''assignments/'', ''discussions/'',
            ''quizzes/'']
           @ map (\<lambda>item. fst (itemFile item)) (allItems c))
   \<and> generateManifest ov mid (reposition f g c) = generateManifest ov mid c
   \<and> exportToIMSCC ov mid (reposition f g c) = exportToIMSCC ov mid c"
  using manifest_order [of ov mid c] moduleOrg_order [of m] archive_order [of ov mid c]
    manifest_reposition [of ov mid f g c] export_reposition [of ov mid f g c]
  by blast

text \<open>
  C9 as stated fails in its last part: the manifest does not embed the \<open>position\<close> fields.
  Two courses that differ only in their positions have the same manifest.
\<close>

theorem manifest_without_position_counterexample:
  "generateManifest ''i1'' ''i2'' exampleCourseMoved = generateManifest ''i1'' ''i2'' exampleCourse
   \<and> map mod_position (course_modules exampleCourse) = [1]
   \<and> map mod_position (course_modules exampleCourseMoved) = [7]
   \<and> map item_position (allItems exampleCourse) = [1]
   \<and> map item_position (allItems exampleCourseMoved) = [9]"
proof -
  have "exampleCourseMoved = reposition (\<lambda>m. 7) (\<lambda>i. 9) exampleCourse"
    by (simp add: exampleCourseMoved_def reposition_def exampleCourse_def exampleModule_def)
  then have "generateManifest ''i1'' ''i2'' exampleCourseMoved
               = generateManifest ''i1'' ''i2'' exampleCourse"
    using manifest_reposition [of "''i1''" "''i2''" "\<lambda>m. 7" "\<lambda>i. 9" exampleCourse] by metis
  then show ?thesis
    by (simp add: exampleCourseMoved_def exampleCourse_def exampleModule_def exampleQuiz_def
          allItems_def)
qed

section \<open>A quiz without questions\<close>

lemma xmlChars_append: "xmlChars s \<Longrightarrow> xmlChars t \<Longrightarrow> xmlChars (s @ t)"
proof (induction s rule: xmlChars.induct)
  case 1
  then show ?case by simp
next
  case (2 a s)
  consider "byte a < 0x80" | "\<not> byte a < 0x80" "byte a < 0xE0"
    | "\<not> byte a < 0x80" "\<not> byte a < 0xE0" "byte a < 0xF0"
    | "\<not> byte a < 0x80" "\<not> byte a < 0xE0" "\<not> byte a < 0xF0"
    by blast
  then show ?case
  proof cases
    case 1
    with 2 show ?thesis by simp
  next
    case 2
    with "2.prems" "2.IH"(2) show ?thesis by (cases s) simp_all
  next
    case 3
    with "2.prems" "2.IH"(3) show ?thesis
      by (cases s; cases "tl s") (simp_all del: prod.inject)
  next
    case 4
    with "2.prems" "2.IH"(4) show ?thesis
      by (cases s; cases "tl s"; cases "tl (tl s)") simp_all
  qed
qed

lemma entity_high: "\<not> byte c < 0x80 \<Longrightarrow> entity c = [c]"
  by (auto simp: entity_def byte_def)

lemma entity_continuation: "continuation c \<Longrightarrow> entity c = [c]"
  by (rule entity_high) (simp add: continuation_def)

lemma entity_secondByte: "secondByte a c \<Longrightarrow> entity c = [c]"
  by (rule entity_high) (simp add: secondByte_def split: if_splits)

lemma xmlChars_entity: "byte c < 0x80 \<Longrightarrow> xmlChars [c] \<Longrightarrow> xmlChars (entity c)"
  by (auto simp: entity_def byte_def)

lemma xmlChars_escapeXml: "xmlChars s \<Longrightarrow> xmlChars (escapeXml s)"
proof (induction s rule: xmlChars.induct)
  case 1
  show ?case by (simp add: escapeXml_Nil)
next
  case (2 a s)
  consider "byte a < 0x80" | "\<not> byte a < 0x80" "byte a < 0xE0"
    | "\<not> byte a < 0x80" "\<not> byte a < 0xE0" "byte a < 0xF0"
    | "\<not> byte a < 0x80" "\<not> byte a < 0xE0" "\<not> byte a < 0xF0"
    by blast
  then show ?case
  proof cases
    case 1
    with 2 have "xmlChars [a]" "xmlChars (escapeXml s)" by simp_all
    with 1 show ?thesis
      unfolding escapeXml_Cons by (intro xmlChars_append xmlChars_entity)
  next
    case 2
    with "2.prems" obtain b s' where s: "s = b # s'" and p: "0xC2 \<le> byte a" "continuation b" "xmlChars s'"
      by (cases s) simp_all
    from 2 s "2.IH"(2) p have "xmlChars (escapeXml s')" by simp
    with 2 p show ?thesis
      by (simp add: s escapeXml_Cons entity_high entity_continuation [OF p(2)])
  next
    case 3
    with "2.prems" obtain b c s' where s: "s = b # c # s'"
      and p: "secondByte a b" "continuation c" "(byte a, byte b, byte c) \<noteq> (0xEF, 0xBF, 0xBE)"
        "(byte a, byte b, byte c) \<noteq> (0xEF, 0xBF, 0xBF)" "xmlChars s'"
      by (cases s; cases "tl s") (simp_all del: prod.inject)
    from 3 s "2.IH"(3) p have "xmlChars (escapeXml s')" by simp
    with 3 p show ?thesis
      by (simp add: s escapeXml_Cons entity_high entity_secondByte [OF p(1)]
            entity_continuation [OF p(2)] del: prod.inject)
  next
    case 4
    with "2.prems" obtain b c d s' where s: "s = b # c # d # s'"
      and p: "byte a \<le> 0xF4" "secondByte a b" "continuation c" "continuation d" "xmlChars s'"
      by (cases s; cases "tl s"; cases "tl (tl s)") simp_all
    from 4 s "2.IH"(4) p have "xmlChars (escapeXml s')" by simp
    with 4 p show ?thesis
      by (simp add: s escapeXml_Cons entity_high entity_secondByte [OF p(2)]
            entity_continuation [OF p(3)] entity_continuation [OF p(4)])
  qed
qed

text \<open>Some characters that are admitted, and some strings that are refused: U+FFFE,
  U+FFFF, a surrogate, a control character, encodings that are too long or cut short.\<close>

lemma xmlChars_examples:
  "xmlChars [CHR 0xC3, CHR 0xA9] \<and> xmlChars [CHR 0xEF, CHR 0xBF, CHR 0xBD]
   \<and> xmlChars [CHR 0xF0, CHR 0x9F, CHR 0x98, CHR 0x80] \<and> xmlChars [CHR 0x7F]
   \<and> \<not> xmlChars [CHR 0xEF, CHR 0xBF, CHR 0xBE] \<and> \<not> xmlChars [CHR 0xEF, CHR 0xBF, CHR 0xBF]
   \<and> \<not> xmlChars [CHR 0xED, CHR 0xA0, CHR 0x80] \<and> \<not> xmlChars [CHR 0x0B]
   \<and> \<not> xmlChars [CHR 0xC0, CHR 0x80] \<and> \<not> xmlChars [CHR 0xC3] \<and> \<not> xmlChars [CHR 0x80]
   \<and> \<not> xmlChars [CHR 0xF4, CHR 0x90, CHR 0x80, CHR 0x80]"
  by code_simp


lemma quiz_empty:
  assumes "item_questions item = None \<or> item_questions item = Some []"
  shows \<open>generateQuizQti item =
     ''<?xml version="1.0" encoding="UTF-8"?>\<newline><questestinterop xmlns="http://www.imsglobal.org/xsd/ims_qtiasiv1p2">\<newline>  <assessment ident="quiz_''
     @ item_id item @ ''" title="'' @ escapeXml (item_title item)
     @ ''">\<newline>    <section ident="root_section">\<newline>      \<newline>    </section>\<newline>  </assessment>\<newline></questestinterop>''\<close>
  using assms by (auto simp: generateQuizQti_def)

lemma quiz_empty_section:
  assumes "item_questions item = None \<or> item_questions item = Some []"
  shows \<open>\<exists>pre post. generateQuizQti item =
            pre @ ''<section ident="root_section">\<newline>      \<newline>    </section>'' @ post\<close>
proof -
  have \<open>''">\<newline>    <section ident="root_section">\<newline>      \<newline>    </section>\<newline>  </assessment>\<newline></questestinterop>''
     = ''">\<newline>    '' @ ''<section ident="root_section">\<newline>      \<newline>    </section>''
       @ ''\<newline>  </assessment>\<newline></questestinterop>''\<close>
    by simp
  then show ?thesis
    unfolding quiz_empty [OF assms] by (metis append.assoc)
qed

lemma value_run_plain:
  "list_all (\<lambda>c. c \<notin> {CHR 0x22, CHR ''<'', CHR ''&''}) s \<Longrightarrow>
     foldl xmlStep (Value (CHR 0x22) names, stack, seen) s = (Value (CHR 0x22) names, stack, seen)"
  by (induction s) (simp_all add: xmlStep_def)

lemma value_run_entity:
  "foldl xmlStep (Value (CHR 0x22) names, stack, seen) (entity c)
     = (Value (CHR 0x22) names, stack, seen)"
proof -
  consider "c = CHR ''&''" | "c = CHR ''<''" | "c = CHR ''>''" | "c = CHR 0x22" | "c = CHR 0x27"
    | "c \<notin> {CHR ''&'', CHR ''<'', CHR ''>'', CHR 0x22, CHR 0x27}" by blast
  then show ?thesis
    by cases (simp_all add: entity_def xmlStep_def isSpace_def isNameChar_def isNameStart_def)
qed

lemma value_run_escape:
  "foldl xmlStep (Value (CHR 0x22) names, stack, seen) (escapeXml s)
     = (Value (CHR 0x22) names, stack, seen)"
  by (induction s) (simp_all add: escapeXml_Nil escapeXml_Cons value_run_entity)

lemma quiz_empty_xmlChars:
  assumes "item_questions item = None \<or> item_questions item = Some []"
    and "xmlChars (item_id item)" and "xmlChars (item_title item)"
  shows "xmlChars (generateQuizQti item)"
  unfolding quiz_empty [OF assms(1)]
  by (intro xmlChars_append xmlChars_escapeXml assms(2,3); code_simp)

lemma quiz_empty_wellFormed:
  assumes "item_questions item = None \<or> item_questions item = Some []"
    and "attributeSafe (item_id item)" and "xmlText (item_title item)"
  shows "wellFormed (generateQuizQti item)"
proof -
  let ?head = \<open>''\<newline><questestinterop xmlns="http://www.imsglobal.org/xsd/ims_qtiasiv1p2">\<newline>  <assessment ident="quiz_''\<close>
  let ?tail = \<open>''">\<newline>    <section ident="root_section">\<newline>      \<newline>    </section>\<newline>  </assessment>\<newline></questestinterop>''\<close>
  let ?rest = \<open>?head @ item_id item @ ''" title="'' @ escapeXml (item_title item) @ ?tail\<close>
  have d: "generateQuizQti item = xmlDeclaration @ ?rest"
    unfolding quiz_empty [OF assms(1)] xmlDeclaration_def by simp
  have 1: "foldl xmlStep (Content, [], False) ?head
             = (Value (CHR 0x22) [''ident''], [''assessment'', ''questestinterop''], True)"
    by code_simp
  have 2: \<open>foldl xmlStep (Value (CHR 0x22) [''ident''], [''assessment'', ''questestinterop''], True)
             ''" title="''
             = (Value (CHR 0x22) [''title'', ''ident''], [''assessment'', ''questestinterop''], True)\<close>
    by code_simp
  have 3: "foldl xmlStep (Value (CHR 0x22) [''title'', ''ident''], [''assessment'', ''questestinterop''], True)
             ?tail = (Content, [], True)"
    by code_simp
  from assms(2) have p: "list_all (\<lambda>c. c \<notin> {CHR 0x22, CHR ''<'', CHR ''&''}) (item_id item)"
    and x: "xmlChars (item_id item)"
    by (simp_all add: attributeSafe_def)
  have "foldl xmlStep (Content, [], False) ?rest = (Content, [], True)"
    unfolding foldl_append 1 value_run_plain [OF p] 2 value_run_escape 3 ..
  moreover have "xmlChars (xmlDeclaration @ ?rest)"
    using quiz_empty_xmlChars [OF assms(1) x] assms(3) unfolding d xmlText_def by simp
  ultimately show ?thesis
    unfolding wellFormed_def d by simp
qed

lemma attributeSafe_no_lt: "attributeSafe s \<Longrightarrow> CHR ''<'' \<notin> set s"
  by (auto simp: attributeSafe_def list_all_iff)

lemma quiz_empty_no_item:
  assumes "item_questions item = None \<or> item_questions item = Some []"
    and "attributeSafe (item_id item)"
  shows "\<not> sublist ''<item'' (generateQuizQti item)"
proof -
  have "noTag ''item'' (generateQuizQti item)"
    unfolding quiz_empty [OF assms(1)]
    by (intro noTag_append noTag_dynamic noTag_plain [OF attributeSafe_no_lt [OF assms(2)]];
        code_simp)
  from noTag_sublist [OF this] show ?thesis by simp
qed

text \<open>The file of a quiz whose title has U+FFFF, U+FFFE or a form feed is refused; that of
  a quiz whose title is an accented letter and a double quote is accepted, the quote being
  escaped.\<close>

lemma quiz_title_noncharacter:
  \<open>xmlChars (item_id exampleQuiz)
    \<and> \<not> wellFormed (generateQuizQti (exampleQuiz\<lparr>item_title := [CHR 0xEF, CHR 0xBF, CHR 0xBF]\<rparr>))
    \<and> \<not> wellFormed (generateQuizQti (exampleQuiz\<lparr>item_title := [CHR 0xEF, CHR 0xBF, CHR 0xBE]\<rparr>))
    \<and> \<not> wellFormed (generateQuizQti (exampleQuiz\<lparr>item_title := [CHR 0x0C]\<rparr>))
    \<and> wellFormed (generateQuizQti (exampleQuiz\<lparr>item_title := [CHR 0xC3, CHR 0xA9, CHR 0x22]\<rparr>))\<close>
  by code_simp

text \<open>
  C8, as the code has it. For an item of type \<open>quiz\<close> whose \<open>questions\<close> are absent or empty
  (an item as the type \<open>CanvasModuleItem\<close> declares it: id, type and title are strings) the
  exporter writes \<open>quizzes/{id}.xml\<close>, the QTI assessment whose \<open><section>\<close> holds white space
  only. The archive of a course with this item holds at that path the QTI document of a quiz
  item of the course with this id; it is the document of this item when no other quiz item
  of the course has the same id (the file of a later item with the same id replaces the
  earlier one). When the id has none of \<open><\<close>, \<open>&\<close> and the double quote, and id and title
  consist of characters that XML admits, the file is well-formed and holds no \<open><item>\<close>
  element. (The id is written into the \<open>ident\<close> attribute as it is.)
\<close>

theorem quiz_without_questions:
  assumes "item_type item = ''quiz''"
    and "item_questions item = None \<or> item_questions item = Some []"
  shows \<open>map_of (exportItem ''assignments/'' ''discussions/'' ''quizzes/'' z item)
            (''quizzes/'' @ item_id item @ ''.xml'') = Some (File (generateQuizQti item))
       \<and> (item \<in> set (allItems c) \<longrightarrow>
            (\<exists>item' \<in> set (allItems c). item_type item' = ''quiz'' \<and> item_id item' = item_id item
               \<and> map_of (exportToIMSCC ov mid c) (''quizzes/'' @ item_id item @ ''.xml'')
                    = Some (File (generateQuizQti item'))))
       \<and> (item \<in> set (allItems c)
            \<and> (\<forall>i \<in> set (allItems c). item_type i = ''quiz'' \<and> item_id i = item_id item \<longrightarrow> i = item)
            \<longrightarrow> map_of (exportToIMSCC ov mid c) (''quizzes/'' @ item_id item @ ''.xml'')
                  = Some (File (generateQuizQti item)))
       \<and> generateQuizQti item =
            ''<?xml version="1.0" encoding="UTF-8"?>\<newline><questestinterop xmlns="http://www.imsglobal.org/xsd/ims_qtiasiv1p2">\<newline>  <assessment ident="quiz_''
            @ item_id item @ ''" title="'' @ escapeXml (item_title item)
            @ ''">\<newline>    <section ident="root_section">\<newline>      \<newline>    </section>\<newline>  </assessment>\<newline></questestinterop>''
       \<and> (\<exists>pre post. generateQuizQti item =
              pre @ ''<section ident="root_section">\<newline>      \<newline>    </section>'' @ post)
       \<and> (attributeSafe (item_id item) \<and> xmlText (item_title item)
            \<longrightarrow> wellFormed (generateQuizQti item) \<and> \<not> sublist ''<item'' (generateQuizQti item))\<close>
proof -
  have f: "itemFile item = (''quizzes/'' @ item_id item @ ''.xml'', generateQuizQti item)"
    using assms(1) by (simp add: itemFile_def)
  have 1: "map_of (exportItem ''assignments/'' ''discussions/'' ''quizzes/'' z item)
            (''quizzes/'' @ item_id item @ ''.xml'') = Some (File (generateQuizQti item))"
    by (simp add: exportItem_lookup f)
  have 2: "\<exists>item' \<in> set (allItems c). item_type item' = ''quiz'' \<and> item_id item' = item_id item
               \<and> map_of (exportToIMSCC ov mid c) (''quizzes/'' @ item_id item @ ''.xml'')
                    = Some (File (generateQuizQti item'))"
    if a: "item \<in> set (allItems c)"
  proof -
    from export_lookup [OF a, of ov mid] f obtain item' where
      i: "item' \<in> set (allItems c)" "fst (itemFile item') = ''quizzes/'' @ item_id item @ ''.xml''"
      and m: "map_of (exportToIMSCC ov mid c) (''quizzes/'' @ item_id item @ ''.xml'')
                = Some (File (snd (itemFile item')))"
      by auto
    from itemFile_quiz_path [OF i(2)] have q: "item_type item' = ''quiz''" "item_id item' = item_id item"
      by simp_all
    then have "snd (itemFile item') = generateQuizQti item'" by (simp add: itemFile_def)
    with m i(1) q show ?thesis by auto
  qed
  have 3: "map_of (exportToIMSCC ov mid c) (''quizzes/'' @ item_id item @ ''.xml'')
                  = Some (File (generateQuizQti item))"
    if a: "item \<in> set (allItems c)
            \<and> (\<forall>i \<in> set (allItems c). item_type i = ''quiz'' \<and> item_id i = item_id item \<longrightarrow> i = item)"
  proof -
    from a 2 obtain item' where "item' \<in> set (allItems c)" "item_type item' = ''quiz''"
      "item_id item' = item_id item"
      "map_of (exportToIMSCC ov mid c) (''quizzes/'' @ item_id item @ ''.xml'')
                    = Some (File (generateQuizQti item'))"
      by blast
    with a show ?thesis by auto
  qed
  note 4 = quiz_empty [OF assms(2)]
  note 5 = quiz_empty_section [OF assms(2)]
  have 6: \<open>wellFormed (generateQuizQti item) \<and> \<not> sublist ''<item'' (generateQuizQti item)\<close>
    if "attributeSafe (item_id item) \<and> xmlText (item_title item)"
    using that quiz_empty_wellFormed [OF assms(2)] quiz_empty_no_item [OF assms(2)] by blast
  from 1 2 3 4 5 6 show ?thesis by blast
qed

theorem quiz_without_questions_witness:
  \<open>item_type exampleQuiz = ''quiz'' \<and> item_questions exampleQuiz = None
    \<and> attributeSafe (item_id exampleQuiz) \<and> xmlText (item_title exampleQuiz)
    \<and> map_of (exportToIMSCC ''i1'' ''i2'' exampleCourse) ''quizzes/item-1-1.xml''
         = Some (File (generateQuizQti exampleQuiz))
    \<and> wellFormed (generateQuizQti exampleQuiz)
    \<and> \<not> sublist ''<item'' (generateQuizQti exampleQuiz)\<close>
proof -
  have t: "item_type exampleQuiz = ''quiz''" and q: "item_questions exampleQuiz = None"
    and i: "item_id exampleQuiz = ''item-1-1''"
    by (simp_all add: exampleQuiz_def)
  have s: "attributeSafe (item_id exampleQuiz)" "xmlText (item_title exampleQuiz)"
    by code_simp+
  have a: "allItems exampleCourse = [exampleQuiz]"
    by (simp add: allItems_def exampleCourse_def exampleModule_def)
  from q have "item_questions exampleQuiz = None \<or> item_questions exampleQuiz = Some []" by simp
  from quiz_without_questions [OF t this, of "[]" exampleCourse "''i1''" "''i2''"] s a i
  have "map_of (exportToIMSCC ''i1'' ''i2'' exampleCourse) ''quizzes/item-1-1.xml''
         = Some (File (generateQuizQti exampleQuiz))"
    and "wellFormed (generateQuizQti exampleQuiz)"
    and \<open>\<not> sublist ''<item'' (generateQuizQti exampleQuiz)\<close>
    by auto
  with t q s show ?thesis by simp
qed

text \<open>
  C8 as stated fails: for a quiz item without questions whose id is \<open>a"b\<close> the file is not
  well-formed, since the quote inside the id ends the \<open>ident\<close> attribute.
\<close>

theorem quiz_id_with_quote_counterexample:
  \<open>\<not> wellFormed
       (generateQuizQti
          \<lparr>item_id = ''a"b'', item_type = ''quiz'', item_title = ''Quiz'', item_content = None,
           item_position = 1, item_points = None, item_rubric = None, item_questions = None,
           item_prompt = None\<rparr>)
    \<and> sublist ''<assessment ident="quiz_a"b" title="Quiz">''
         (generateQuizQti
            \<lparr>item_id = ''a"b'', item_type = ''quiz'', item_title = ''Quiz'', item_content = None,
             item_position = 1, item_points = None, item_rubric = None, item_questions = None,
             item_prompt = None\<rparr>)\<close>
  by code_simp

end
